theory Spec2Isabelle
  imports Main "HOL-Library.Word" "HOL-Library.Multiset"
begin

unbundle bit_operations_syntax

section \<open>Cells, arenas and typed access to cell bytes\<close>

text \<open>
  Modelled from the spec: \<^verbatim>\<open>RowCursorCell\<close> (\<^verbatim>\<open>olap/row_cursor_cell.h\<close>) is not
  among the sources.  The aggregation functions of \<^verbatim>\<open>be/src/olap/aggregate_func.h\<close>
  use its four members \<^verbatim>\<open>is_null\<close>, \<^verbatim>\<open>set_is_null\<close>, \<^verbatim>\<open>cell_ptr\<close> and
  \<^verbatim>\<open>mutable_cell_ptr\<close>; the spec describes it as a null flag plus the bytes of the
  column slot.  For a fixed-width column the slot holds \<^verbatim>\<open>sizeof(CppType)\<close> bytes of
  the value; for CHAR, VARCHAR and HLL it holds a \<^verbatim>\<open>Slice\<close>.  The record is therefore
  polymorphic in the slot's content.
\<close>

type_synonym byte = "8 word"

record 'c RowCursorCell =
  is_null :: bool
  cell_ptr :: 'c

definition set_is_null :: "bool \<Rightarrow> 'c RowCursorCell \<Rightarrow> 'c RowCursorCell" where
  "set_is_null b c = c\<lparr>is_null := b\<rparr>"

text \<open>
  Modelled from the spec: \<^verbatim>\<open>Arena\<close> (\<^verbatim>\<open>util/arena.h\<close>) is not among the sources.  The
  spec calls it a bump allocator whose blocks stay valid until the owner releases it, so
  \<^verbatim>\<open>Allocate(n)\<close> hands out the next free address and advances by \<open>n\<close>.  An
  \<^verbatim>\<open>Arena*\<close> argument is an \<open>Arena option\<close>, \<open>None\<close> being \<^verbatim>\<open>nullptr\<close>.
\<close>

record Arena =
  next_free :: nat

definition Allocate :: "Arena \<Rightarrow> nat \<Rightarrow> nat \<times> Arena" where
  "Allocate a n = (next_free a, a\<lparr>next_free := next_free a + n\<rparr>)"

subsection \<open>Object representation of integers\<close>

text \<open>
  The value of a \<open>w\<close>-bit integer object is read from its \<open>w div 8\<close> bytes, least
  significant byte first (the byte order of the platforms the engine is built for).
\<close>

fun from_bytes_nat :: "byte list \<Rightarrow> nat" where
  "from_bytes_nat [] = 0"
| "from_bytes_nat (b # bs) = unat b + 256 * from_bytes_nat bs"

fun to_bytes_nat :: "nat \<Rightarrow> nat \<Rightarrow> byte list" where
  "to_bytes_nat 0 k = []"
| "to_bytes_nat (Suc n) k = word_of_nat (k mod 256) # to_bytes_nat n (k div 256)"

definition size_of :: "'a::len itself \<Rightarrow> nat" where
  "size_of T = LENGTH('a) div 8"

definition from_bytes :: "byte list \<Rightarrow> 'a::len word" where
  "from_bytes bs = word_of_nat (from_bytes_nat bs)"

definition to_bytes :: "'a::len word \<Rightarrow> byte list" where
  "to_bytes v = to_bytes_nat (size_of TYPE('a)) (unat v)"

text \<open>
  \<^verbatim>\<open>*reinterpret_cast<const CppType*>(p)\<close> reads the first \<^verbatim>\<open>sizeof(CppType)\<close> bytes at
  \<open>p\<close>; \<^verbatim>\<open>*reinterpret_cast<CppType*>(p) = v\<close> overwrites them.  \<^verbatim>\<open>memcpy(d, s, n)\<close>
  overwrites the first \<open>n\<close> bytes at \<open>d\<close> by the first \<open>n\<close> bytes at \<open>s\<close>.  A cell
  of a type is well formed when it holds exactly \<^verbatim>\<open>sizeof(CppType)\<close> bytes; the code
  never checks this, and reading a shorter cell is undefined in C++ (here the missing
  bytes are simply absent).
\<close>

definition deref :: "byte list \<Rightarrow> 'a::len word" where
  "deref p = from_bytes (take (size_of TYPE('a)) p)"

definition assign :: "byte list \<Rightarrow> 'a::len word \<Rightarrow> byte list" where
  "assign p v = to_bytes v @ drop (size_of TYPE('a)) p"

definition memcpy :: "byte list \<Rightarrow> byte list \<Rightarrow> nat \<Rightarrow> byte list" where
  "memcpy d s n = take n s @ drop n d"

section \<open>The aggregation functions\<close>

subsection \<open>BaseAggregateFuncs\<close>

text \<open>The default \<^verbatim>\<open>init\<close> marks the cell null, the default \<^verbatim>\<open>update\<close> and
  \<^verbatim>\<open>finalize\<close> do nothing, and \<^verbatim>\<open>merge\<close> is \<^verbatim>\<open>nullptr\<close>.\<close>

definition BaseAggregateFuncs_init :: "'c RowCursorCell \<Rightarrow> Arena option \<Rightarrow> 'c RowCursorCell" where
  "BaseAggregateFuncs_init dst arena = dst\<lparr>is_null := True\<rparr>"

definition BaseAggregateFuncs_update ::
  "'c RowCursorCell \<Rightarrow> 'c RowCursorCell \<Rightarrow> Arena option \<Rightarrow> 'c RowCursorCell" where
  "BaseAggregateFuncs_update dst src arena = dst"

definition BaseAggregateFuncs_merge :: "'u option" where
  "BaseAggregateFuncs_merge = None"

definition BaseAggregateFuncs_finalize :: "'c \<Rightarrow> Arena option \<Rightarrow> 'c" where
  "BaseAggregateFuncs_finalize src arena = src"

subsection \<open>MIN, MAX and SUM on fixed-width integers\<close>

text \<open>
  The template parameter \<^verbatim>\<open>field_type\<close> fixes \<^verbatim>\<open>CppType\<close> through
  \<^verbatim>\<open>FieldTypeTraits\<close> (\<^verbatim>\<open>olap/types.h\<close>, not among the sources).  A value of
  \<^verbatim>\<open>CppType\<close> is the content of its \<^verbatim>\<open>sizeof(CppType)\<close> bytes, an \<open>'a word\<close>;
  the type is passed as \<open>TYPE('a)\<close>.  MIN compares with \<^verbatim>\<open>CppType\<close>'s own
  \<^verbatim>\<open>operator<\<close> and MAX with its \<^verbatim>\<open>operator>\<close>: each is a parameter of the update
  function, a relation on the values.  For the signed integer types, TINYINT to LARGEINT,
  they are \<open>signed_lt\<close> and \<open>signed_gt\<close>; for the unsigned ones \<open>unsigned_lt\<close> and
  \<open>unsigned_gt\<close>.  SUM is modelled for the integer types: \<^verbatim>\<open>+=\<close> is addition on
  \<open>'a word\<close>, the result the hardware computes (the code makes no overflow check).
\<close>

definition signed_lt :: "'a::len word \<Rightarrow> 'a word \<Rightarrow> bool" where
  "signed_lt a b \<longleftrightarrow> a <s b"

definition signed_gt :: "'a::len word \<Rightarrow> 'a word \<Rightarrow> bool" where
  "signed_gt a b \<longleftrightarrow> b <s a"

definition unsigned_lt :: "'a::len word \<Rightarrow> 'a word \<Rightarrow> bool" where
  "unsigned_lt a b \<longleftrightarrow> a < b"

definition unsigned_gt :: "'a::len word \<Rightarrow> 'a word \<Rightarrow> bool" where
  "unsigned_gt a b \<longleftrightarrow> b < a"

definition MIN_update ::
  "('a::len word \<Rightarrow> 'a word \<Rightarrow> bool) \<Rightarrow> 'a itself
    \<Rightarrow> byte list RowCursorCell \<Rightarrow> byte list RowCursorCell \<Rightarrow> Arena option
    \<Rightarrow> byte list RowCursorCell" where
  "MIN_update lt T dst src arena =
    (let src_null = is_null src in
     if src_null then dst
     else
       let dst_null = is_null dst;
           dst_val = (deref (cell_ptr dst) :: 'a word);
           src_val = (deref (cell_ptr src) :: 'a word)
       in if dst_null \<or> lt src_val dst_val
          then (set_is_null False dst)\<lparr>cell_ptr := assign (cell_ptr dst) src_val\<rparr>
          else dst)"

definition MIN_LARGEINT_update ::
  "byte list RowCursorCell \<Rightarrow> byte list RowCursorCell \<Rightarrow> Arena option
    \<Rightarrow> byte list RowCursorCell" where
  "MIN_LARGEINT_update dst src arena =
    (let src_null = is_null src in
     if src_null then dst
     else
       let dst_null = is_null dst in
       if dst_null
       then (set_is_null False dst)
              \<lparr>cell_ptr := memcpy (cell_ptr dst) (cell_ptr src) (size_of TYPE(128))\<rparr>
       else
         let dst_val = (from_bytes (memcpy (replicate (size_of TYPE(128)) 0) (cell_ptr dst)
                                      (size_of TYPE(128))) :: 128 word);
             src_val = (from_bytes (memcpy (replicate (size_of TYPE(128)) 0) (cell_ptr src)
                                      (size_of TYPE(128))) :: 128 word)
         in if src_val <s dst_val
            then (set_is_null False dst)
                   \<lparr>cell_ptr := memcpy (cell_ptr dst) (cell_ptr src) (size_of TYPE(128))\<rparr>
            else dst)"

definition MAX_update ::
  "('a::len word \<Rightarrow> 'a word \<Rightarrow> bool) \<Rightarrow> 'a itself
    \<Rightarrow> byte list RowCursorCell \<Rightarrow> byte list RowCursorCell \<Rightarrow> Arena option
    \<Rightarrow> byte list RowCursorCell" where
  "MAX_update gt T dst src arena =
    (let src_null = is_null src in
     if src_null then dst
     else
       let dst_null = is_null dst;
           dst_val = (deref (cell_ptr dst) :: 'a word);
           src_val = (deref (cell_ptr src) :: 'a word)
       in if dst_null \<or> gt src_val dst_val
          then (set_is_null False dst)\<lparr>cell_ptr := assign (cell_ptr dst) src_val\<rparr>
          else dst)"

definition MAX_LARGEINT_update ::
  "byte list RowCursorCell \<Rightarrow> byte list RowCursorCell \<Rightarrow> Arena option
    \<Rightarrow> byte list RowCursorCell" where
  "MAX_LARGEINT_update dst src arena =
    (let src_null = is_null src in
     if src_null then dst
     else
       let dst_null = is_null dst;
           dst_val = (from_bytes (memcpy (replicate (size_of TYPE(128)) 0) (cell_ptr dst)
                                    (size_of TYPE(128))) :: 128 word);
           src_val = (from_bytes (memcpy (replicate (size_of TYPE(128)) 0) (cell_ptr src)
                                    (size_of TYPE(128))) :: 128 word)
       in if dst_null \<or> dst_val <s src_val
          then (set_is_null False dst)
                 \<lparr>cell_ptr := memcpy (cell_ptr dst) (cell_ptr src) (size_of TYPE(128))\<rparr>
          else dst)"

definition SUM_update ::
  "'a::len itself \<Rightarrow> byte list RowCursorCell \<Rightarrow> byte list RowCursorCell \<Rightarrow> Arena option
    \<Rightarrow> byte list RowCursorCell" where
  "SUM_update T dst src arena =
    (let src_null = is_null src in
     if src_null then dst
     else
       let dst_val = (deref (cell_ptr dst) :: 'a word);
           dst_null = is_null dst
       in if dst_null
          then (set_is_null False dst)
                 \<lparr>cell_ptr := assign (cell_ptr dst) (deref (cell_ptr src) :: 'a word)\<rparr>
          else dst\<lparr>cell_ptr := assign (cell_ptr dst) (dst_val + (deref (cell_ptr src) :: 'a word))\<rparr>)"

definition SUM_LARGEINT_update ::
  "byte list RowCursorCell \<Rightarrow> byte list RowCursorCell \<Rightarrow> Arena option
    \<Rightarrow> byte list RowCursorCell" where
  "SUM_LARGEINT_update dst src arena =
    (let src_null = is_null src in
     if src_null then dst
     else
       let dst_null = is_null dst in
       if dst_null
       then (set_is_null False dst)
              \<lparr>cell_ptr := memcpy (cell_ptr dst) (cell_ptr src) (size_of TYPE(128))\<rparr>
       else
         let dst_val = (from_bytes (memcpy (replicate (size_of TYPE(128)) 0) (cell_ptr dst)
                                      (size_of TYPE(128))) :: 128 word);
             src_val = (from_bytes (memcpy (replicate (size_of TYPE(128)) 0) (cell_ptr src)
                                      (size_of TYPE(128))) :: 128 word);
             dst_val = dst_val + src_val
         in dst\<lparr>cell_ptr := memcpy (cell_ptr dst) (to_bytes dst_val) (size_of TYPE(128))\<rparr>)"

subsection \<open>REPLACE\<close>

definition REPLACE_update ::
  "'a::len itself \<Rightarrow> byte list RowCursorCell \<Rightarrow> byte list RowCursorCell \<Rightarrow> Arena option
    \<Rightarrow> byte list RowCursorCell" where
  "REPLACE_update T dst src arena =
    (let src_null = is_null src;
         dst = set_is_null src_null dst
     in if \<not> src_null
        then dst\<lparr>cell_ptr := memcpy (cell_ptr dst) (cell_ptr src) (size_of T)\<rparr>
        else dst)"

text \<open>
  Modelled from the spec: \<^verbatim>\<open>Slice\<close> is not among the sources.  It is a pointer
  \<^verbatim>\<open>data\<close> and a length \<^verbatim>\<open>size\<close> (here \<open>size_s\<close>); the bytes it addresses live
  in memory, a map from addresses to bytes.
\<close>

record Slice =
  data :: nat
  size_s :: nat

type_synonym heap = "nat \<Rightarrow> byte"

definition read_bytes :: "heap \<Rightarrow> nat \<Rightarrow> nat \<Rightarrow> byte list" where
  "read_bytes h p n = map (\<lambda>i. h (p + i)) [0..<n]"

text \<open>
  Modelled from the spec: \<^verbatim>\<open>memory_copy\<close> (\<^verbatim>\<open>util/mem_util.hpp\<close>) is not among the
  sources; it is taken to copy \<open>n\<close> bytes from \<open>src\<close> to \<open>dst\<close> as \<^verbatim>\<open>memcpy\<close> does,
  all source bytes being read from the memory as it was before the call.
\<close>

definition memory_copy :: "heap \<Rightarrow> nat \<Rightarrow> nat \<Rightarrow> nat \<Rightarrow> heap" where
  "memory_copy h dst src n = (\<lambda>a. if dst \<le> a \<and> a < dst + n then h (src + (a - dst)) else h a)"

text \<open>The CHAR specialisation returns the destination cell, the arena and the memory.\<close>

definition REPLACE_CHAR_update ::
  "Slice RowCursorCell \<Rightarrow> Slice RowCursorCell \<Rightarrow> Arena option \<Rightarrow> heap
    \<Rightarrow> Slice RowCursorCell \<times> Arena option \<times> heap" where
  "REPLACE_CHAR_update dst src arena h =
    (let dst_null = is_null dst;
         src_null = is_null src;
         dst = set_is_null src_null dst
     in if src_null then (dst, arena, h)
        else
          let dst_slice = cell_ptr dst;
              src_slice = cell_ptr src
          in if arena = None \<or> (\<not> dst_null \<and> size_s src_slice \<le> size_s dst_slice)
             then
               let h = memory_copy h (data dst_slice) (data src_slice) (size_s src_slice);
                   dst_slice = dst_slice\<lparr>size_s := size_s src_slice\<rparr>
               in (dst\<lparr>cell_ptr := dst_slice\<rparr>, arena, h)
             else
               let (p, a) = Allocate (the arena) (size_s src_slice);
                   dst_slice = dst_slice\<lparr>data := p\<rparr>;
                   h = memory_copy h (data dst_slice) (data src_slice) (size_s src_slice);
                   dst_slice = dst_slice\<lparr>size_s := size_s src_slice\<rparr>
               in (dst\<lparr>cell_ptr := dst_slice\<rparr>, Some a, h))"

text \<open>The VARCHAR specialisation inherits everything from the CHAR one.\<close>

definition REPLACE_VARCHAR_update ::
  "Slice RowCursorCell \<Rightarrow> Slice RowCursorCell \<Rightarrow> Arena option \<Rightarrow> heap
    \<Rightarrow> Slice RowCursorCell \<times> Arena option \<times> heap" where
  "REPLACE_VARCHAR_update = REPLACE_CHAR_update"

subsection \<open>HLL_UNION\<close>

text \<open>
  Modelled from the spec: \<^verbatim>\<open>HllContext\<close> (\<^verbatim>\<open>olap/hll.h\<close>) is not among the
  sources; its fields are the ones the code of this file reads and writes.  The slot of
  an HLL column is a slice whose buffer is preceded by a pointer to the context.  The
  model keeps the buffer's bytes, the slice's length and the context together.
  \<^verbatim>\<open>hash64_set\<close> points to a heap-allocated \<^verbatim>\<open>std::set\<close>; \<open>None\<close> is the pointer
  after \<^verbatim>\<open>delete\<close>, and \<^verbatim>\<open>finalize\<close> on such a context has no defined result.
\<close>

record HllContext =
  has_value :: bool
  has_sparse_or_full :: bool
  registers :: "byte list"
  hash64_set :: "64 word set option"

record HllSlice =
  hll_data :: "byte list"
  hll_size :: nat
  hll_context :: HllContext

text \<open>
  Modelled from the spec: \<^verbatim>\<open>olap/hll.h\<close> is not among the sources.  Its constants, the
  sizes of the types of \<^verbatim>\<open>HllSetResolver\<close> and the functions of \<^verbatim>\<open>HllSetHelper\<close> are
  parameters.  A function that serialises returns the bytes it writes at
  \<^verbatim>\<open>slice->data\<close> and the value it leaves in \<^verbatim>\<open>result_len\<close>.
\<close>

record hll_h =
  HLL_REGISTERS_COUNT :: nat
  HLL_EXPLICLIT_INT64_NUM :: nat
  HLL_COLUMN_DEFAULT_LEN :: int
  sizeof_SparseIndexType :: nat
  sizeof_SparseValueType :: nat
  sizeof_SparseLengthValueType :: nat
  init_context :: "HllContext \<Rightarrow> HllContext"
  fill_set :: "byte list \<Rightarrow> HllContext \<Rightarrow> HllContext"
  set_max_register :: "byte list \<Rightarrow> nat \<Rightarrow> 64 word set \<Rightarrow> byte list"
  set_full :: "byte list \<Rightarrow> nat \<Rightarrow> byte list \<times> int"
  set_sparse :: "(nat \<times> byte) list \<Rightarrow> byte list \<times> int"
  set_explicit :: "64 word set \<Rightarrow> byte list \<times> int"

text \<open>The calls that \<^verbatim>\<open>finalize\<close> makes to \<^verbatim>\<open>HllSetHelper\<close>, in order.\<close>

datatype HllSetHelper_call =
  call_set_max_register | call_set_full | call_set_sparse | call_set_explicit

definition HLL_UNION_init :: "hll_h \<Rightarrow> HllSlice RowCursorCell \<Rightarrow> Arena option \<Rightarrow> HllSlice RowCursorCell" where
  "HLL_UNION_init H dst arena =
    (let slice' = cell_ptr dst;
         context = init_context H (hll_context slice');
         context = context\<lparr>has_value := True\<rparr>
     in dst\<lparr>is_null := False, cell_ptr := slice'\<lparr>hll_context := context\<rparr>\<rparr>)"

definition HLL_UNION_update ::
  "hll_h \<Rightarrow> HllSlice RowCursorCell \<Rightarrow> byte list RowCursorCell \<Rightarrow> Arena option
    \<Rightarrow> HllSlice RowCursorCell" where
  "HLL_UNION_update H dst src arena =
    (let l_slice = cell_ptr dst;
         context = fill_set H (cell_ptr src) (hll_context l_slice)
     in dst\<lparr>cell_ptr := l_slice\<lparr>hll_context := context\<rparr>\<rparr>)"

text \<open>The loop over the registers: the non-zero ones, with their indices, in order.\<close>

definition index_to_value_of :: "byte list \<Rightarrow> nat \<Rightarrow> (nat \<times> byte) list" where
  "index_to_value_of regs n = filter (\<lambda>(i, v). v \<noteq> 0) (zip [0..<n] regs)"

text \<open>\<^verbatim>\<open>int sparse_set_len\<close>: the \<^verbatim>\<open>size_t\<close> expression narrowed to 32 bits.\<close>

definition sparse_set_len :: "hll_h \<Rightarrow> nat \<Rightarrow> int" where
  "sparse_set_len H m =
    sint (word_of_nat (m * (sizeof_SparseIndexType H + sizeof_SparseValueType H)
                       + sizeof_SparseLengthValueType H) :: 32 word)"

definition HLL_UNION_finalize ::
  "hll_h \<Rightarrow> HllSlice \<Rightarrow> Arena option \<Rightarrow> (HllSetHelper_call list \<times> HllSlice) option" where
  "HLL_UNION_finalize H slice' arena =
    (let context = hll_context slice' in
     case hash64_set context of
       None \<Rightarrow> None
     | Some hs \<Rightarrow>
         let convert = (has_sparse_or_full context \<or> HLL_EXPLICLIT_INT64_NUM H < card hs);
             regs = (if convert
                     then set_max_register H (registers context) (HLL_REGISTERS_COUNT H) hs
                     else registers context);
             index_to_value = (if convert then index_to_value_of regs (HLL_REGISTERS_COUNT H)
                               else []);
             len = sparse_set_len H (length index_to_value);
             (calls, out, result_len) =
               (if HLL_COLUMN_DEFAULT_LEN H \<le> len
                then ([call_set_full], set_full H regs (HLL_REGISTERS_COUNT H))
                else if 0 < length index_to_value
                then ([call_set_sparse], set_sparse H index_to_value)
                else if 0 < card hs
                then ([call_set_explicit], set_explicit H hs)
                else ([], [], 0))
         in Some ((if convert then [call_set_max_register] else []) @ calls,
                  slice'\<lparr>hll_data := out @ drop (length out) (hll_data slice'),
                        hll_size := nat (result_len AND 0xffff),
                        hll_context := context\<lparr>registers := regs, hash64_set := None\<rparr>\<rparr>))"

subsection \<open>Traits and AggregateInfo\<close>

text \<open>
  A traits class is the bundle of its four members.  Every specialisation derives from
  \<^verbatim>\<open>BaseAggregateFuncs\<close> and overrides only the members it declares.
\<close>

record ('i, 'u, 'f) AggregateFuncs =
  init :: 'i
  update :: 'u
  merge :: "'u option"
  finalize :: 'f

definition AggregateFuncTraits ::
  "('c RowCursorCell \<Rightarrow> Arena option \<Rightarrow> 'c RowCursorCell,
    'c RowCursorCell \<Rightarrow> 'c RowCursorCell \<Rightarrow> Arena option \<Rightarrow> 'c RowCursorCell,
    'c \<Rightarrow> Arena option \<Rightarrow> 'c) AggregateFuncs" where
  "AggregateFuncTraits =
    \<lparr>init = BaseAggregateFuncs_init, update = BaseAggregateFuncs_update,
     merge = BaseAggregateFuncs_merge, finalize = BaseAggregateFuncs_finalize\<rparr>"

definition AggregateFuncTraits_MIN ::
  "('a::len word \<Rightarrow> 'a word \<Rightarrow> bool) \<Rightarrow> 'a itself \<Rightarrow>
   (byte list RowCursorCell \<Rightarrow> Arena option \<Rightarrow> byte list RowCursorCell,
    byte list RowCursorCell \<Rightarrow> byte list RowCursorCell \<Rightarrow> Arena option \<Rightarrow> byte list RowCursorCell,
    byte list \<Rightarrow> Arena option \<Rightarrow> byte list) AggregateFuncs" where
  "AggregateFuncTraits_MIN lt T = AggregateFuncTraits\<lparr>update := MIN_update lt T\<rparr>"

definition AggregateFuncTraits_MIN_LARGEINT ::
  "(byte list RowCursorCell \<Rightarrow> Arena option \<Rightarrow> byte list RowCursorCell,
    byte list RowCursorCell \<Rightarrow> byte list RowCursorCell \<Rightarrow> Arena option \<Rightarrow> byte list RowCursorCell,
    byte list \<Rightarrow> Arena option \<Rightarrow> byte list) AggregateFuncs" where
  "AggregateFuncTraits_MIN_LARGEINT = AggregateFuncTraits\<lparr>update := MIN_LARGEINT_update\<rparr>"

definition AggregateFuncTraits_MAX ::
  "('a::len word \<Rightarrow> 'a word \<Rightarrow> bool) \<Rightarrow> 'a itself \<Rightarrow>
   (byte list RowCursorCell \<Rightarrow> Arena option \<Rightarrow> byte list RowCursorCell,
    byte list RowCursorCell \<Rightarrow> byte list RowCursorCell \<Rightarrow> Arena option \<Rightarrow> byte list RowCursorCell,
    byte list \<Rightarrow> Arena option \<Rightarrow> byte list) AggregateFuncs" where
  "AggregateFuncTraits_MAX gt T = AggregateFuncTraits\<lparr>update := MAX_update gt T\<rparr>"

definition AggregateFuncTraits_MAX_LARGEINT ::
  "(byte list RowCursorCell \<Rightarrow> Arena option \<Rightarrow> byte list RowCursorCell,
    byte list RowCursorCell \<Rightarrow> byte list RowCursorCell \<Rightarrow> Arena option \<Rightarrow> byte list RowCursorCell,
    byte list \<Rightarrow> Arena option \<Rightarrow> byte list) AggregateFuncs" where
  "AggregateFuncTraits_MAX_LARGEINT = AggregateFuncTraits\<lparr>update := MAX_LARGEINT_update\<rparr>"

definition AggregateFuncTraits_SUM ::
  "'a::len itself \<Rightarrow>
   (byte list RowCursorCell \<Rightarrow> Arena option \<Rightarrow> byte list RowCursorCell,
    byte list RowCursorCell \<Rightarrow> byte list RowCursorCell \<Rightarrow> Arena option \<Rightarrow> byte list RowCursorCell,
    byte list \<Rightarrow> Arena option \<Rightarrow> byte list) AggregateFuncs" where
  "AggregateFuncTraits_SUM T = AggregateFuncTraits\<lparr>update := SUM_update T\<rparr>"

definition AggregateFuncTraits_SUM_LARGEINT ::
  "(byte list RowCursorCell \<Rightarrow> Arena option \<Rightarrow> byte list RowCursorCell,
    byte list RowCursorCell \<Rightarrow> byte list RowCursorCell \<Rightarrow> Arena option \<Rightarrow> byte list RowCursorCell,
    byte list \<Rightarrow> Arena option \<Rightarrow> byte list) AggregateFuncs" where
  "AggregateFuncTraits_SUM_LARGEINT = AggregateFuncTraits\<lparr>update := SUM_LARGEINT_update\<rparr>"

definition AggregateFuncTraits_REPLACE ::
  "'a::len itself \<Rightarrow>
   (byte list RowCursorCell \<Rightarrow> Arena option \<Rightarrow> byte list RowCursorCell,
    byte list RowCursorCell \<Rightarrow> byte list RowCursorCell \<Rightarrow> Arena option \<Rightarrow> byte list RowCursorCell,
    byte list \<Rightarrow> Arena option \<Rightarrow> byte list) AggregateFuncs" where
  "AggregateFuncTraits_REPLACE T = AggregateFuncTraits\<lparr>update := REPLACE_update T\<rparr>"

definition AggregateFuncTraits_REPLACE_CHAR ::
  "(Slice RowCursorCell \<Rightarrow> Arena option \<Rightarrow> Slice RowCursorCell,
    Slice RowCursorCell \<Rightarrow> Slice RowCursorCell \<Rightarrow> Arena option \<Rightarrow> heap
      \<Rightarrow> Slice RowCursorCell \<times> Arena option \<times> heap,
    Slice \<Rightarrow> Arena option \<Rightarrow> Slice) AggregateFuncs" where
  "AggregateFuncTraits_REPLACE_CHAR =
    \<lparr>init = BaseAggregateFuncs_init, update = REPLACE_CHAR_update,
     merge = BaseAggregateFuncs_merge, finalize = BaseAggregateFuncs_finalize\<rparr>"

definition AggregateFuncTraits_REPLACE_VARCHAR ::
  "(Slice RowCursorCell \<Rightarrow> Arena option \<Rightarrow> Slice RowCursorCell,
    Slice RowCursorCell \<Rightarrow> Slice RowCursorCell \<Rightarrow> Arena option \<Rightarrow> heap
      \<Rightarrow> Slice RowCursorCell \<times> Arena option \<times> heap,
    Slice \<Rightarrow> Arena option \<Rightarrow> Slice) AggregateFuncs" where
  "AggregateFuncTraits_REPLACE_VARCHAR = AggregateFuncTraits_REPLACE_CHAR"

definition AggregateFuncTraits_HLL_UNION ::
  "hll_h \<Rightarrow>
   (HllSlice RowCursorCell \<Rightarrow> Arena option \<Rightarrow> HllSlice RowCursorCell,
    HllSlice RowCursorCell \<Rightarrow> byte list RowCursorCell \<Rightarrow> Arena option \<Rightarrow> HllSlice RowCursorCell,
    HllSlice \<Rightarrow> Arena option \<Rightarrow> (HllSetHelper_call list \<times> HllSlice) option) AggregateFuncs" where
  "AggregateFuncTraits_HLL_UNION H =
    \<lparr>init = HLL_UNION_init H, update = HLL_UNION_update H,
     merge = BaseAggregateFuncs_merge, finalize = HLL_UNION_finalize H\<rparr>"

text \<open>
  Modelled from the spec: the constructor \<^verbatim>\<open>AggregateInfo(const Traits&)\<close> is defined
  in \<^verbatim>\<open>aggregate_func.cpp\<close>, which is not among the sources.  The header's comment on
  \<^verbatim>\<open>BaseAggregateFuncs::merge\<close> and the spec say what it does: it stores the traits'
  functions and sets the merge function to the update function when the traits' merge is
  \<^verbatim>\<open>nullptr\<close>.
\<close>

record ('i, 'u, 'f) AggregateInfo_rec =
  init_fn :: 'i
  update_fn :: 'u
  merge_fn :: 'u
  finalize_fn :: 'f

definition AggregateInfo :: "('i, 'u, 'f) AggregateFuncs \<Rightarrow> ('i, 'u, 'f) AggregateInfo_rec" where
  "AggregateInfo traits =
    \<lparr>init_fn = init traits,
     update_fn = update traits,
     merge_fn = (case merge traits of None \<Rightarrow> update traits | Some m \<Rightarrow> m),
     finalize_fn = finalize traits\<rparr>"

text \<open>The inline members of \<^verbatim>\<open>AggregateInfo\<close> call the stored functions.\<close>

definition AggregateInfo_init :: "('i, 'u, 'f) AggregateInfo_rec \<Rightarrow> 'i" where
  "AggregateInfo_init info = init_fn info"

definition AggregateInfo_update :: "('i, 'u, 'f) AggregateInfo_rec \<Rightarrow> 'u" where
  "AggregateInfo_update info = update_fn info"

definition AggregateInfo_merge :: "('i, 'u, 'f) AggregateInfo_rec \<Rightarrow> 'u" where
  "AggregateInfo_merge info = merge_fn info"

definition AggregateInfo_finalize :: "('i, 'u, 'f) AggregateInfo_rec \<Rightarrow> 'f" where
  "AggregateInfo_finalize info = finalize_fn info"

subsection \<open>Folding a sequence of rows\<close>

text \<open>
  The caller initialises the destination once per key group and then folds the source
  cells into it one after the other, in row order.
\<close>

definition aggregate ::
  "('c RowCursorCell \<Rightarrow> 's \<Rightarrow> Arena option \<Rightarrow> 'c RowCursorCell) \<Rightarrow> Arena option
    \<Rightarrow> 'c RowCursorCell \<Rightarrow> 's list \<Rightarrow> 'c RowCursorCell" where
  "aggregate upd arena dst srcs = foldl (\<lambda>d s. upd d s arena) (BaseAggregateFuncs_init dst arena) srcs"

text \<open>
  \<^verbatim>\<open>finalize\<close> receives the address of the slot's content, behind the null flag.
\<close>

definition finalize_cell ::
  "('c \<Rightarrow> Arena option \<Rightarrow> 'c) \<Rightarrow> Arena option \<Rightarrow> 'c RowCursorCell \<Rightarrow> 'c RowCursorCell" where
  "finalize_cell fin arena c = c\<lparr>cell_ptr := fin (cell_ptr c) arena\<rparr>"

text \<open>Source cells of a fixed-width column: one holding a value, and a null one.\<close>

definition value_cell :: "'a::len word \<Rightarrow> byte list RowCursorCell" where
  "value_cell v = \<lparr>is_null = False, cell_ptr = to_bytes v\<rparr>"

definition null_cell :: "'a::len itself \<Rightarrow> byte list RowCursorCell" where
  "null_cell T = \<lparr>is_null = True, cell_ptr = replicate (size_of T) 0\<rparr>"

text \<open>
  A CHAR destination whose slice records 2 bytes at address 0, a source of 5 bytes at
  address 100, and a memory holding the source's bytes 1 to 5.
\<close>

definition example_heap :: heap where
  "example_heap a = (if 100 \<le> a \<and> a < 105 then word_of_nat (a - 99) else 0)"

definition example_dst :: "Slice RowCursorCell" where
  "example_dst = \<lparr>is_null = False, cell_ptr = \<lparr>data = 0, size_s = 2\<rparr>\<rparr>"

definition example_src :: "Slice RowCursorCell" where
  "example_src = \<lparr>is_null = False, cell_ptr = \<lparr>data = 100, size_s = 5\<rparr>\<rparr>"

text \<open>
  A small instance of the parameters of \<^verbatim>\<open>olap/hll.h\<close>, for evaluation: four
  registers, at most two explicit hashes, a column length of 12 bytes, and helper
  functions that write a one-byte tag.
\<close>

definition example_hll_h :: hll_h where
  "example_hll_h =
    \<lparr>HLL_REGISTERS_COUNT = 4, HLL_EXPLICLIT_INT64_NUM = 2, HLL_COLUMN_DEFAULT_LEN = 12,
     sizeof_SparseIndexType = 2, sizeof_SparseValueType = 1, sizeof_SparseLengthValueType = 4,
     init_context = (\<lambda>c. c\<lparr>has_sparse_or_full := False, registers := replicate 4 0,
                              hash64_set := Some {}\<rparr>),
     fill_set = (\<lambda>bs c. c),
     set_max_register = (\<lambda>regs n hs. regs),
     set_full = (\<lambda>regs n. ([3], 5)),
     set_sparse = (\<lambda>m. ([2], 1 + 4 + 3 * int (length m))),
     set_explicit = (\<lambda>hs. ([1], 2 + 8 * int (card hs)))\<rparr>"

definition example_context :: "bool \<Rightarrow> byte list \<Rightarrow> 64 word set \<Rightarrow> HllSlice" where
  "example_context sf regs hs =
    \<lparr>hll_data = [9, 9], hll_size = 2,
     hll_context = \<lparr>has_value = True, has_sparse_or_full = sf, registers = regs,
                    hash64_set = Some hs\<rparr>\<rparr>"


section \<open>Properties\<close>

subsection \<open>Bytes and values\<close>

lemma pow256: "(256::nat) ^ n = 2 ^ (8 * n)"
  by (simp add: power_mult)

lemma from_bytes_nat_bound: "from_bytes_nat bs < 256 ^ length bs"
proof (induction bs)
  case Nil
  show ?case by simp
next
  case (Cons b bs)
  have "unat b < 256" using unsigned_less [of b] by simp
  moreover have "from_bytes_nat bs + 1 \<le> 256 ^ length bs" using Cons.IH by simp
  then have "256 * (from_bytes_nat bs + 1) \<le> 256 * 256 ^ length bs"
    by (rule mult_le_mono2)
  ultimately show ?case by simp
qed

lemma to_bytes_nat_from_bytes_nat: "to_bytes_nat (length bs) (from_bytes_nat bs) = bs"
proof (induction bs)
  case Nil
  show ?case by simp
next
  case (Cons b bs)
  have lt: "unat b < 256" using unsigned_less [of b] by simp
  then have "(unat b + 256 * from_bytes_nat bs) mod 256 = unat b" by simp
  moreover from lt have "(unat b + 256 * from_bytes_nat bs) div 256 = from_bytes_nat bs" by simp
  ultimately show ?case using Cons.IH by simp
qed

lemma length_to_bytes_nat: "length (to_bytes_nat n k) = n"
  by (induction n arbitrary: k) simp_all

lemma from_bytes_nat_to_bytes_nat: "from_bytes_nat (to_bytes_nat n k) = k mod 256 ^ n"
proof (induction n arbitrary: k)
  case 0
  show ?case by simp
next
  case (Suc n)
  have "unat (word_of_nat (k mod 256) :: byte) = k mod 256"
    by (simp add: unat_of_nat)
  then have "from_bytes_nat (to_bytes_nat (Suc n) k) = k mod 256 + 256 * ((k div 256) mod 256 ^ n)"
    using Suc.IH [of "k div 256"] by simp
  also have "\<dots> = k mod 256 ^ Suc n"
    by (simp add: mod_mult2_eq)
  finally show ?case .
qed

lemma length_to_bytes: "length (to_bytes (v :: 'a::len word)) = size_of TYPE('a)"
  by (simp add: to_bytes_def length_to_bytes_nat)

lemma to_bytes_from_bytes:
  assumes "length bs = size_of TYPE('a::len)" and "8 dvd LENGTH('a)"
  shows "to_bytes (from_bytes bs :: 'a word) = bs"
proof -
  have len: "8 * length bs = LENGTH('a)"
    using assms by (auto simp: size_of_def)
  have "from_bytes_nat bs < 256 ^ length bs" by (rule from_bytes_nat_bound)
  also have "(256::nat) ^ length bs = 2 ^ LENGTH('a)"
    using len by (simp add: pow256)
  finally have "unat (word_of_nat (from_bytes_nat bs) :: 'a word) = from_bytes_nat bs"
    by (simp add: unat_of_nat)
  then show ?thesis
    using assms(1) to_bytes_nat_from_bytes_nat [of bs]
    by (simp add: to_bytes_def from_bytes_def)
qed

lemma from_bytes_to_bytes:
  assumes "8 dvd LENGTH('a::len)"
  shows "from_bytes (to_bytes (v :: 'a word)) = v"
proof -
  have len: "8 * size_of TYPE('a) = LENGTH('a)"
    using assms by (auto simp: size_of_def)
  have "(256::nat) ^ size_of TYPE('a) = 2 ^ LENGTH('a)"
    using len by (simp add: pow256)
  then have "from_bytes_nat (to_bytes v) = unat v mod 2 ^ LENGTH('a)"
    by (simp add: to_bytes_def from_bytes_nat_to_bytes_nat)
  then show ?thesis
    by (simp add: from_bytes_def unat_of_nat flip: unat_of_nat)
qed

lemma memcpy_local: "memcpy (replicate n 0) p n = take n p"
  by (simp add: memcpy_def)

lemma assign_deref_memcpy:
  assumes "size_of TYPE('a::len) \<le> length s" and "8 dvd LENGTH('a)"
  shows "assign d (deref s :: 'a word) = memcpy d s (size_of TYPE('a))"
proof -
  have "length (take (size_of TYPE('a)) s) = size_of TYPE('a)"
    using assms(1) by simp
  then have "to_bytes (from_bytes (take (size_of TYPE('a)) s) :: 'a word) = take (size_of TYPE('a)) s"
    using assms(2) by (rule to_bytes_from_bytes)
  then show ?thesis by (simp add: assign_def deref_def memcpy_def)
qed

lemma memcpy_to_bytes:
  "memcpy d (to_bytes (v :: 'a::len word)) (size_of TYPE('a)) = assign d v"
  by (simp add: memcpy_def assign_def length_to_bytes)

lemma deref_assign:
  assumes "8 dvd LENGTH('a::len)"
  shows "deref (assign p (v :: 'a word)) = v"
  using assms by (simp add: deref_def assign_def length_to_bytes from_bytes_to_bytes)

lemma assign_assign: "assign (assign p (v :: 'a::len word)) (w :: 'a word) = assign p w"
  by (simp add: assign_def length_to_bytes)

lemma memcpy_whole: "length s = n \<Longrightarrow> length d = n \<Longrightarrow> memcpy d s n = s"
  by (simp add: memcpy_def)

lemma deref_value_cell:
  assumes "8 dvd LENGTH('a::len)"
  shows "deref (cell_ptr (value_cell (v :: 'a word))) = v"
  using assms by (simp add: deref_def value_cell_def length_to_bytes from_bytes_to_bytes)

lemma is_null_value_cell [simp]: "\<not> is_null (value_cell v)"
  by (simp add: value_cell_def)

lemma is_null_null_cell [simp]: "is_null (null_cell T)"
  by (simp add: null_cell_def)

lemma is_null_init [simp]: "is_null (BaseAggregateFuncs_init dst arena)"
  by (simp add: BaseAggregateFuncs_init_def)

lemma length_value_cell: "length (cell_ptr (value_cell (v :: 'a::len word))) = size_of TYPE('a)"
  by (simp add: value_cell_def length_to_bytes)

lemma length_null_cell: "length (cell_ptr (null_cell T)) = size_of T"
  by (simp add: null_cell_def)

lemma finalize_cell_Base [simp]: "finalize_cell BaseAggregateFuncs_finalize arena c = c"
  by (simp add: finalize_cell_def BaseAggregateFuncs_finalize_def)

subsection \<open>The LARGEINT specialisations\<close>

lemma MIN_LARGEINT_eq:
  assumes "length (cell_ptr src) = size_of TYPE(128)"
  shows "MIN_LARGEINT_update dst src arena = MIN_update signed_lt TYPE(128) dst src arena"
proof -
  have "assign (cell_ptr dst) (deref (cell_ptr src) :: 128 word)
        = memcpy (cell_ptr dst) (cell_ptr src) (size_of TYPE(128))"
    using assms by (intro assign_deref_memcpy) simp_all
  then show ?thesis
    by (simp add: MIN_LARGEINT_update_def MIN_update_def Let_def memcpy_local deref_def
        signed_lt_def)
qed

lemma MAX_LARGEINT_eq:
  assumes "length (cell_ptr src) = size_of TYPE(128)"
  shows "MAX_LARGEINT_update dst src arena = MAX_update signed_gt TYPE(128) dst src arena"
proof -
  have "assign (cell_ptr dst) (deref (cell_ptr src) :: 128 word)
        = memcpy (cell_ptr dst) (cell_ptr src) (size_of TYPE(128))"
    using assms by (intro assign_deref_memcpy) simp_all
  then show ?thesis
    by (simp add: MAX_LARGEINT_update_def MAX_update_def Let_def memcpy_local deref_def
        signed_gt_def)
qed

lemma SUM_LARGEINT_eq:
  assumes "length (cell_ptr src) = size_of TYPE(128)"
  shows "SUM_LARGEINT_update dst src arena = SUM_update TYPE(128) dst src arena"
proof -
  have "assign (cell_ptr dst) (deref (cell_ptr src) :: 128 word)
        = memcpy (cell_ptr dst) (cell_ptr src) (size_of TYPE(128))"
    using assms by (intro assign_deref_memcpy) simp_all
  then show ?thesis
    by (simp add: SUM_LARGEINT_update_def SUM_update_def Let_def memcpy_local memcpy_to_bytes
        deref_def)
qed

text \<open>
  Claim C7.  The LARGEINT specialisations of MIN, MAX and SUM update, which move the
  cell bytes with \<^verbatim>\<open>memcpy\<close>, leave the destination (null flag and bytes) exactly as
  the generic template instantiated at the 128-bit integer does, for every destination
  cell and every source cell that holds the 16 bytes of a LARGEINT.
\<close>

theorem largeint_update_refines_generic:
  assumes "length (cell_ptr src) = size_of TYPE(128)"
  shows "MIN_LARGEINT_update dst src arena = MIN_update signed_lt TYPE(128) dst src arena
       \<and> MAX_LARGEINT_update dst src arena = MAX_update signed_gt TYPE(128) dst src arena
       \<and> SUM_LARGEINT_update dst src arena = SUM_update TYPE(128) dst src arena"
  using assms by (simp add: MIN_LARGEINT_eq MAX_LARGEINT_eq SUM_LARGEINT_eq)

theorem largeint_update_refines_generic_witness:
  "length (cell_ptr (value_cell (3 :: 128 word))) = size_of TYPE(128)
   \<and> MIN_LARGEINT_update (value_cell (7 :: 128 word)) (value_cell (3 :: 128 word)) None
       = MIN_update signed_lt TYPE(128) (value_cell (7 :: 128 word)) (value_cell (3 :: 128 word)) None
   \<and> MAX_LARGEINT_update (value_cell (7 :: 128 word)) (value_cell (3 :: 128 word)) None
       = MAX_update signed_gt TYPE(128) (value_cell (7 :: 128 word)) (value_cell (3 :: 128 word)) None
   \<and> SUM_LARGEINT_update (value_cell (7 :: 128 word)) (value_cell (3 :: 128 word)) None
       = SUM_update TYPE(128) (value_cell (7 :: 128 word)) (value_cell (3 :: 128 word)) None"
  using largeint_update_refines_generic
    [of "value_cell (3 :: 128 word)" "value_cell (7 :: 128 word)" None]
  by (simp add: length_value_cell)

subsection \<open>MIN and MAX\<close>

lemma MIN_update_null_src: "is_null src \<Longrightarrow> MIN_update lt T dst src arena = dst"
  by (simp add: MIN_update_def)

lemma MAX_update_null_src: "is_null src \<Longrightarrow> MAX_update gt T dst src arena = dst"
  by (simp add: MAX_update_def)

lemma MIN_update_value:
  assumes "8 dvd LENGTH('a::len)" and "\<not> is_null src"
  shows "\<not> is_null (MIN_update lt TYPE('a) dst src arena)
       \<and> (deref (cell_ptr (MIN_update lt TYPE('a) dst src arena)) :: 'a word) =
           (if is_null dst then deref (cell_ptr src)
            else if lt (deref (cell_ptr src) :: 'a word) (deref (cell_ptr dst))
                 then deref (cell_ptr src) else deref (cell_ptr dst))"
  using assms by (simp add: MIN_update_def Let_def set_is_null_def deref_assign)

lemma MAX_update_value:
  assumes "8 dvd LENGTH('a::len)" and "\<not> is_null src"
  shows "\<not> is_null (MAX_update gt TYPE('a) dst src arena)
       \<and> (deref (cell_ptr (MAX_update gt TYPE('a) dst src arena)) :: 'a word) =
           (if is_null dst then deref (cell_ptr src)
            else if gt (deref (cell_ptr src) :: 'a word) (deref (cell_ptr dst))
                 then deref (cell_ptr src) else deref (cell_ptr dst))"
  using assms by (simp add: MAX_update_def Let_def set_is_null_def deref_assign)

lemma dvd32: "8 dvd LENGTH(32)" by simp

lemma MIN_fold_example:
  assumes "lt (2 :: 32 word) 5" and "\<not> lt (9 :: 32 word) 2"
  shows "\<not> is_null (aggregate (MIN_update lt TYPE(32)) arena dst
        [value_cell (5 :: 32 word), null_cell TYPE(32), value_cell (2 :: 32 word), value_cell (9 :: 32 word)])
   \<and> (deref (cell_ptr (aggregate (MIN_update lt TYPE(32)) arena dst
        [value_cell (5 :: 32 word), null_cell TYPE(32), value_cell (2 :: 32 word), value_cell (9 :: 32 word)])) :: 32 word) = 2"
proof -
  define d0 where "d0 = BaseAggregateFuncs_init dst arena"
  define d1 where "d1 = MIN_update lt TYPE(32) d0 (value_cell (5 :: 32 word)) arena"
  define d2 where "d2 = MIN_update lt TYPE(32) d1 (null_cell TYPE(32)) arena"
  define d3 where "d3 = MIN_update lt TYPE(32) d2 (value_cell (2 :: 32 word)) arena"
  define d4 where "d4 = MIN_update lt TYPE(32) d3 (value_cell (9 :: 32 word)) arena"
  have 1: "\<not> is_null d1 \<and> (deref (cell_ptr d1) :: 32 word) = 5"
    unfolding d1_def d0_def
    using MIN_update_value [OF dvd32, where src = "value_cell (5 :: 32 word)"
        and dst = "BaseAggregateFuncs_init dst arena" and arena = arena and lt = lt]
    by (simp add: deref_value_cell)
  have 2: "d2 = d1" unfolding d2_def by (simp add: MIN_update_null_src)
  have 3: "\<not> is_null d3 \<and> (deref (cell_ptr d3) :: 32 word) = 2"
    unfolding d3_def
    using MIN_update_value [OF dvd32, where src = "value_cell (2 :: 32 word)"
        and dst = "d2" and arena = arena and lt = lt] 1 2
    by (simp add: deref_value_cell assms)
  have 4: "\<not> is_null d4 \<and> (deref (cell_ptr d4) :: 32 word) = 2"
    unfolding d4_def
    using MIN_update_value [OF dvd32, where src = "value_cell (9 :: 32 word)"
        and dst = "d3" and arena = arena and lt = lt] 3
    by (simp add: deref_value_cell assms)
  have "aggregate (MIN_update lt TYPE(32)) arena dst
        [value_cell (5 :: 32 word), null_cell TYPE(32), value_cell (2 :: 32 word), value_cell (9 :: 32 word)] = d4"
    by (simp add: aggregate_def d4_def d3_def d2_def d1_def d0_def)
  with 4 show ?thesis by simp
qed

lemma MAX_fold_example:
  assumes "\<not> gt (2 :: 32 word) 5" and "gt (9 :: 32 word) 5"
  shows "\<not> is_null (aggregate (MAX_update gt TYPE(32)) arena dst
        [value_cell (5 :: 32 word), null_cell TYPE(32), value_cell (2 :: 32 word), value_cell (9 :: 32 word)])
   \<and> (deref (cell_ptr (aggregate (MAX_update gt TYPE(32)) arena dst
        [value_cell (5 :: 32 word), null_cell TYPE(32), value_cell (2 :: 32 word), value_cell (9 :: 32 word)])) :: 32 word) = 9"
proof -
  define d0 where "d0 = BaseAggregateFuncs_init dst arena"
  define d1 where "d1 = MAX_update gt TYPE(32) d0 (value_cell (5 :: 32 word)) arena"
  define d2 where "d2 = MAX_update gt TYPE(32) d1 (null_cell TYPE(32)) arena"
  define d3 where "d3 = MAX_update gt TYPE(32) d2 (value_cell (2 :: 32 word)) arena"
  define d4 where "d4 = MAX_update gt TYPE(32) d3 (value_cell (9 :: 32 word)) arena"
  have 1: "\<not> is_null d1 \<and> (deref (cell_ptr d1) :: 32 word) = 5"
    unfolding d1_def d0_def
    using MAX_update_value [OF dvd32, where src = "value_cell (5 :: 32 word)"
        and dst = "BaseAggregateFuncs_init dst arena" and arena = arena and gt = gt]
    by (simp add: deref_value_cell)
  have 2: "d2 = d1" unfolding d2_def by (simp add: MAX_update_null_src)
  have 3: "\<not> is_null d3 \<and> (deref (cell_ptr d3) :: 32 word) = 5"
    unfolding d3_def
    using MAX_update_value [OF dvd32, where src = "value_cell (2 :: 32 word)"
        and dst = "d2" and arena = arena and gt = gt] 1 2
    by (simp add: deref_value_cell assms)
  have 4: "\<not> is_null d4 \<and> (deref (cell_ptr d4) :: 32 word) = 9"
    unfolding d4_def
    using MAX_update_value [OF dvd32, where src = "value_cell (9 :: 32 word)"
        and dst = "d3" and arena = arena and gt = gt] 3
    by (simp add: deref_value_cell assms)
  have "aggregate (MAX_update gt TYPE(32)) arena dst
        [value_cell (5 :: 32 word), null_cell TYPE(32), value_cell (2 :: 32 word), value_cell (9 :: 32 word)] = d4"
    by (simp add: aggregate_def d4_def d3_def d2_def d1_def d0_def)
  with 4 show ?thesis by simp
qed

lemma foldl_null_srcs:
  assumes "\<And>d s. is_null s \<Longrightarrow> upd d s arena = d" and "\<forall>s\<in>set srcs. is_null s"
  shows "foldl (\<lambda>d s. upd d s arena) d0 srcs = d0"
  using assms(2) by (induction srcs arbitrary: d0) (simp_all add: assms(1))

lemma aggregate_null_srcs:
  assumes "\<And>d s. is_null s \<Longrightarrow> upd d s arena = d" and "\<forall>s\<in>set srcs. is_null s"
  shows "aggregate upd arena dst srcs = BaseAggregateFuncs_init dst arena"
  unfolding aggregate_def using assms by (rule foldl_null_srcs)

text \<open>
  Claim C4.  A MIN (MAX) update with a non-null source leaves the destination non-null;
  its value is the source's when the destination was null, and otherwise the smaller
  (larger) of the two under the ordering of the type: the source's value when the type's
  \<^verbatim>\<open>operator<\<close> (\<^verbatim>\<open>operator>\<close>) puts it before (after) the destination's, and the
  destination's otherwise, whatever relation the operator is.  From the initialised state,
  folding 5, null, 2, 9 at INT gives 2 for MIN and 9 for MAX, with the signed and with the
  unsigned order, and folding only null sources leaves the destination null, its bytes
  untouched.
\<close>

theorem min_max_update:
  assumes "8 dvd LENGTH('a::len)" and "\<not> is_null src" and "\<forall>s\<in>set srcs. is_null s"
  shows "\<not> is_null (MIN_update lt TYPE('a) dst src arena)
       \<and> (deref (cell_ptr (MIN_update lt TYPE('a) dst src arena)) :: 'a word) =
           (if is_null dst then deref (cell_ptr src)
            else if lt (deref (cell_ptr src) :: 'a word) (deref (cell_ptr dst))
                 then deref (cell_ptr src) else deref (cell_ptr dst))
       \<and> \<not> is_null (MAX_update gt TYPE('a) dst src arena)
       \<and> (deref (cell_ptr (MAX_update gt TYPE('a) dst src arena)) :: 'a word) =
           (if is_null dst then deref (cell_ptr src)
            else if gt (deref (cell_ptr src) :: 'a word) (deref (cell_ptr dst))
                 then deref (cell_ptr src) else deref (cell_ptr dst))
       \<and> \<not> is_null (aggregate (MIN_update signed_lt TYPE(32)) arena dst
            [value_cell (5 :: 32 word), null_cell TYPE(32), value_cell (2 :: 32 word), value_cell (9 :: 32 word)])
       \<and> (deref (cell_ptr (aggregate (MIN_update signed_lt TYPE(32)) arena dst
            [value_cell (5 :: 32 word), null_cell TYPE(32), value_cell (2 :: 32 word), value_cell (9 :: 32 word)])) :: 32 word) = 2
       \<and> \<not> is_null (aggregate (MAX_update signed_gt TYPE(32)) arena dst
            [value_cell (5 :: 32 word), null_cell TYPE(32), value_cell (2 :: 32 word), value_cell (9 :: 32 word)])
       \<and> (deref (cell_ptr (aggregate (MAX_update signed_gt TYPE(32)) arena dst
            [value_cell (5 :: 32 word), null_cell TYPE(32), value_cell (2 :: 32 word), value_cell (9 :: 32 word)])) :: 32 word) = 9
       \<and> \<not> is_null (aggregate (MIN_update unsigned_lt TYPE(32)) arena dst
            [value_cell (5 :: 32 word), null_cell TYPE(32), value_cell (2 :: 32 word), value_cell (9 :: 32 word)])
       \<and> (deref (cell_ptr (aggregate (MIN_update unsigned_lt TYPE(32)) arena dst
            [value_cell (5 :: 32 word), null_cell TYPE(32), value_cell (2 :: 32 word), value_cell (9 :: 32 word)])) :: 32 word) = 2
       \<and> \<not> is_null (aggregate (MAX_update unsigned_gt TYPE(32)) arena dst
            [value_cell (5 :: 32 word), null_cell TYPE(32), value_cell (2 :: 32 word), value_cell (9 :: 32 word)])
       \<and> (deref (cell_ptr (aggregate (MAX_update unsigned_gt TYPE(32)) arena dst
            [value_cell (5 :: 32 word), null_cell TYPE(32), value_cell (2 :: 32 word), value_cell (9 :: 32 word)])) :: 32 word) = 9
       \<and> aggregate (MIN_update lt TYPE('a)) arena dst srcs = dst\<lparr>is_null := True\<rparr>
       \<and> aggregate (MAX_update gt TYPE('a)) arena dst srcs = dst\<lparr>is_null := True\<rparr>"
proof -
  note a = MIN_update_value [OF assms(1,2), where dst = dst and arena = arena and lt = lt]
  note b = MAX_update_value [OF assms(1,2), where dst = dst and arena = arena and gt = gt]
  have c: "\<not> is_null (aggregate (MIN_update signed_lt TYPE(32)) arena dst
            [value_cell (5 :: 32 word), null_cell TYPE(32), value_cell (2 :: 32 word), value_cell (9 :: 32 word)])
       \<and> (deref (cell_ptr (aggregate (MIN_update signed_lt TYPE(32)) arena dst
            [value_cell (5 :: 32 word), null_cell TYPE(32), value_cell (2 :: 32 word), value_cell (9 :: 32 word)])) :: 32 word) = 2"
    by (rule MIN_fold_example) (simp_all add: signed_lt_def word_sless_alt)
  have d: "\<not> is_null (aggregate (MAX_update signed_gt TYPE(32)) arena dst
            [value_cell (5 :: 32 word), null_cell TYPE(32), value_cell (2 :: 32 word), value_cell (9 :: 32 word)])
       \<and> (deref (cell_ptr (aggregate (MAX_update signed_gt TYPE(32)) arena dst
            [value_cell (5 :: 32 word), null_cell TYPE(32), value_cell (2 :: 32 word), value_cell (9 :: 32 word)])) :: 32 word) = 9"
    by (rule MAX_fold_example) (simp_all add: signed_gt_def word_sless_alt)
  have c': "\<not> is_null (aggregate (MIN_update unsigned_lt TYPE(32)) arena dst
            [value_cell (5 :: 32 word), null_cell TYPE(32), value_cell (2 :: 32 word), value_cell (9 :: 32 word)])
       \<and> (deref (cell_ptr (aggregate (MIN_update unsigned_lt TYPE(32)) arena dst
            [value_cell (5 :: 32 word), null_cell TYPE(32), value_cell (2 :: 32 word), value_cell (9 :: 32 word)])) :: 32 word) = 2"
    by (rule MIN_fold_example) (simp_all add: unsigned_lt_def)
  have d': "\<not> is_null (aggregate (MAX_update unsigned_gt TYPE(32)) arena dst
            [value_cell (5 :: 32 word), null_cell TYPE(32), value_cell (2 :: 32 word), value_cell (9 :: 32 word)])
       \<and> (deref (cell_ptr (aggregate (MAX_update unsigned_gt TYPE(32)) arena dst
            [value_cell (5 :: 32 word), null_cell TYPE(32), value_cell (2 :: 32 word), value_cell (9 :: 32 word)])) :: 32 word) = 9"
    by (rule MAX_fold_example) (simp_all add: unsigned_gt_def)
  have e: "aggregate (MIN_update lt TYPE('a)) arena dst srcs = dst\<lparr>is_null := True\<rparr>"
    using aggregate_null_srcs [of "MIN_update lt TYPE('a)" arena srcs dst] assms(3)
    by (simp add: MIN_update_null_src BaseAggregateFuncs_init_def)
  have f: "aggregate (MAX_update gt TYPE('a)) arena dst srcs = dst\<lparr>is_null := True\<rparr>"
    using aggregate_null_srcs [of "MAX_update gt TYPE('a)" arena srcs dst] assms(3)
    by (simp add: MAX_update_null_src BaseAggregateFuncs_init_def)
  from a b c d c' d' e f show ?thesis by blast
qed

theorem min_max_update_witness:
  "8 dvd LENGTH(64) \<and> \<not> is_null (value_cell (0x8000000000000000 :: 64 word))
   \<and> is_null (null_cell TYPE(64))
   \<and> (deref (cell_ptr (MIN_update unsigned_lt TYPE(64) (value_cell (1 :: 64 word))
          (value_cell (0x8000000000000000 :: 64 word)) None)) :: 64 word) = 1
   \<and> (deref (cell_ptr (MAX_update unsigned_gt TYPE(64) (value_cell (1 :: 64 word))
          (value_cell (0x8000000000000000 :: 64 word)) None)) :: 64 word) = 0x8000000000000000
   \<and> aggregate (MIN_update unsigned_lt TYPE(64)) None (value_cell (1 :: 64 word))
        [null_cell TYPE(64), null_cell TYPE(64)]
       = (value_cell (1 :: 64 word))\<lparr>is_null := True\<rparr>"
proof -
  have d: "8 dvd LENGTH(64)" by simp
  have n: "\<not> is_null (value_cell (0x8000000000000000 :: 64 word))" by simp
  have a: "\<forall>s\<in>set [null_cell TYPE(64), null_cell TYPE(64)]. is_null s" by simp
  show ?thesis
    using min_max_update [OF d n a, where dst = "value_cell (1 :: 64 word)" and arena = None
        and lt = unsigned_lt and gt = unsigned_gt]
    by (simp add: deref_value_cell unsigned_lt_def unsigned_gt_def)
qed

subsection \<open>SUM\<close>

lemma SUM_update_null_src: "is_null src \<Longrightarrow> SUM_update T dst src arena = dst"
  by (simp add: SUM_update_def)

lemma SUM_update_nonnull_src:
  assumes "\<not> is_null src"
  shows "SUM_update TYPE('a::len) dst src arena =
         \<lparr>is_null = False,
          cell_ptr = assign (cell_ptr dst)
            (if is_null dst then (deref (cell_ptr src) :: 'a word)
             else deref (cell_ptr dst) + deref (cell_ptr src))\<rparr>"
  using assms by (simp add: SUM_update_def Let_def set_is_null_def)

text \<open>
  Claim C6.  SUM update checks no overflow: with both cells non-null the destination
  holds the sum of the two values modulo \<open>2 ^ w\<close>, \<open>w\<close> the width of the type; the
  update always produces a cell, whatever the operands.
\<close>

theorem sum_update_wraps:
  assumes "8 dvd LENGTH('a::len)" and "\<not> is_null src" and "\<not> is_null dst"
  shows "\<not> is_null (SUM_update TYPE('a) dst src arena)
       \<and> (deref (cell_ptr (SUM_update TYPE('a) dst src arena)) :: 'a word)
           = deref (cell_ptr dst) + deref (cell_ptr src)
       \<and> uint (deref (cell_ptr (SUM_update TYPE('a) dst src arena)) :: 'a word)
           = (uint (deref (cell_ptr dst) :: 'a word) + uint (deref (cell_ptr src) :: 'a word))
               mod 2 ^ LENGTH('a)
       \<and> sint (deref (cell_ptr (SUM_update TYPE('a) dst src arena)) :: 'a word)
           = signed_take_bit (LENGTH('a) - 1)
               (sint (deref (cell_ptr dst) :: 'a word) + sint (deref (cell_ptr src) :: 'a word))"
proof -
  have "(deref (cell_ptr (SUM_update TYPE('a) dst src arena)) :: 'a word)
        = deref (cell_ptr dst) + deref (cell_ptr src)"
    using assms by (simp add: SUM_update_nonnull_src deref_assign)
  moreover have "\<not> is_null (SUM_update TYPE('a) dst src arena)"
    using assms by (simp add: SUM_update_nonnull_src)
  ultimately show ?thesis
    by (simp add: uint_word_ariths sint_word_ariths)
qed

text \<open>At TINYINT, 127 + 1 is stored as -128.\<close>

theorem sum_update_wraps_witness:
  "8 dvd LENGTH(8) \<and> \<not> is_null (value_cell (1 :: 8 word)) \<and> \<not> is_null (value_cell (127 :: 8 word))
   \<and> sint (deref (cell_ptr (SUM_update TYPE(8) (value_cell (127 :: 8 word)) (value_cell (1 :: 8 word)) None)) :: 8 word)
       = - 128"
proof -
  have d: "8 dvd LENGTH(8)" by simp
  show ?thesis
    using sum_update_wraps [OF d, of "value_cell (1 :: 8 word)" "value_cell (127 :: 8 word)" None]
    by (simp add: deref_value_cell)
qed

lemma foldl_SUM_running:
  assumes "8 dvd LENGTH('a::len)" and "\<not> is_null d" and "cell_ptr d = assign p (v :: 'a word)"
  shows "foldl (\<lambda>d s. SUM_update TYPE('a) d s arena) d srcs =
         \<lparr>is_null = False, cell_ptr = assign p (v + sum_list
            (map (\<lambda>s. deref (cell_ptr s)) (filter (\<lambda>s. \<not> is_null s) srcs)))\<rparr>"
  using assms(2,3)
proof (induction srcs arbitrary: d v)
  case Nil
  then show ?case by simp
next
  case (Cons s srcs)
  show ?case
  proof (cases "is_null s")
    case True
    then show ?thesis using Cons by (simp add: SUM_update_null_src)
  next
    case False
    let ?d = "SUM_update TYPE('a) d s arena"
    have 1: "\<not> is_null ?d" using False by (simp add: SUM_update_nonnull_src)
    have 2: "cell_ptr ?d = assign p (v + deref (cell_ptr s))"
      using False Cons.prems assms(1)
      by (simp add: SUM_update_nonnull_src assign_assign deref_assign)
    show ?thesis
      using Cons.IH [OF 1 2] False by (simp add: add.assoc)
  qed
qed

lemma foldl_SUM_from_null:
  assumes "8 dvd LENGTH('a::len)" and "is_null d"
  shows "foldl (\<lambda>d s. SUM_update TYPE('a) d s arena) d srcs =
         (if \<forall>s\<in>set srcs. is_null s then d
          else \<lparr>is_null = False, cell_ptr = assign (cell_ptr d) (sum_list
            (map (\<lambda>s. deref (cell_ptr s)) (filter (\<lambda>s. \<not> is_null s) srcs)) :: 'a word)\<rparr>)"
  using assms(2)
proof (induction srcs)
  case Nil
  then show ?case by simp
next
  case (Cons s srcs)
  show ?case
  proof (cases "is_null s")
    case True
    then show ?thesis using Cons by (simp add: SUM_update_null_src)
  next
    case False
    let ?d = "SUM_update TYPE('a) d s arena"
    have 1: "\<not> is_null ?d" using False by (simp add: SUM_update_nonnull_src)
    have 2: "cell_ptr ?d = assign (cell_ptr d) (deref (cell_ptr s) :: 'a word)"
      using False Cons.prems by (simp add: SUM_update_nonnull_src)
    show ?thesis
      using foldl_SUM_running [OF assms(1) 1 2, of arena srcs] False by auto
  qed
qed

lemma aggregate_SUM:
  assumes "8 dvd LENGTH('a::len)"
  shows "aggregate (SUM_update TYPE('a)) arena dst srcs =
         (if \<forall>s\<in>set srcs. is_null s then dst\<lparr>is_null := True\<rparr>
          else \<lparr>is_null = False, cell_ptr = assign (cell_ptr dst) (sum_list
            (map (\<lambda>s. deref (cell_ptr s)) (filter (\<lambda>s. \<not> is_null s) srcs)) :: 'a word)\<rparr>)"
  unfolding aggregate_def
  using foldl_SUM_from_null [OF assms, of "BaseAggregateFuncs_init dst arena" arena srcs]
  by (simp add: BaseAggregateFuncs_init_def)

lemma sum_list_vals_mset:
  assumes "mset xs = mset ys"
  shows "sum_list (map f (filter P xs)) = (sum_list (map f (filter P ys)) :: 'a::len word)"
proof -
  have "mset (map f (filter P xs)) = mset (map f (filter P ys))"
    using assms by (metis mset_filter mset_map)
  then show ?thesis by (metis sum_mset_sum_list)
qed

lemma sint_sum_list:
  "sint (sum_list ws :: 'a::len word) = signed_take_bit (LENGTH('a) - 1) (sum_list (map sint ws))"
proof (induction ws)
  case Nil
  show ?case by simp
next
  case (Cons w ws)
  have "sint (w + sum_list ws) = signed_take_bit (LENGTH('a) - 1) (sint w + sint (sum_list ws))"
    by (simp add: sint_word_ariths)
  also have "\<dots> = signed_take_bit (LENGTH('a) - 1) (sint w + sum_list (map sint ws))"
    unfolding Cons.IH by (metis signed_take_bit_add signed_take_bit_signed_take_bit min.idem)
  finally show ?case by simp
qed

text \<open>
  Claim C5 as stated fails where the sum leaves the range of the type: folding the
  TINYINT values 127 and 1 does not give their arithmetic sum 128.
\<close>

theorem sum_fold_counterexample:
  "sint (deref (cell_ptr (finalize_cell BaseAggregateFuncs_finalize None
      (aggregate (SUM_update TYPE(8)) None (null_cell TYPE(8))
         [value_cell (127 :: 8 word), value_cell (1 :: 8 word)]))) :: 8 word)
   \<noteq> sint (127 :: 8 word) + sint (1 :: 8 word)"
proof -
  have d: "8 dvd LENGTH(8)" by simp
  show ?thesis
    by (simp add: aggregate_SUM [OF d] deref_value_cell deref_assign)
qed

text \<open>
  Claim C5, amended.  From the initialised destination, folding a sequence by SUM update
  and finalizing gives a null result when every source is null, and otherwise the sum of
  the non-null values in the arithmetic of the type, that is their arithmetic sum
  reduced modulo \<open>2 ^ w\<close> into the signed range, and the arithmetic sum itself when it
  lies in that range.  The result is the same for every reordering of the sources, and
  folding two groups apart and merging the partial results by update gives the result of
  folding them in one sequence.
\<close>

theorem sum_fold:
  assumes "8 dvd LENGTH('a::len)" and "mset srcs' = mset srcs"
  shows "finalize_cell BaseAggregateFuncs_finalize arena
           (aggregate (SUM_update TYPE('a)) arena dst srcs) =
         (if \<forall>s\<in>set srcs. is_null s then dst\<lparr>is_null := True\<rparr>
          else \<lparr>is_null = False, cell_ptr = assign (cell_ptr dst) (sum_list
            (map (\<lambda>s. deref (cell_ptr s)) (filter (\<lambda>s. \<not> is_null s) srcs)) :: 'a word)\<rparr>)
       \<and> ((\<exists>s\<in>set srcs. \<not> is_null s) \<longrightarrow>
            sint (deref (cell_ptr (finalize_cell BaseAggregateFuncs_finalize arena
                    (aggregate (SUM_update TYPE('a)) arena dst srcs))) :: 'a word) =
            signed_take_bit (LENGTH('a) - 1)
              (sum_list (map (\<lambda>s. sint (deref (cell_ptr s) :: 'a word))
                 (filter (\<lambda>s. \<not> is_null s) srcs))))
       \<and> ((\<exists>s\<in>set srcs. \<not> is_null s)
            \<and> - (2 ^ (LENGTH('a) - 1)) \<le> sum_list (map (\<lambda>s. sint (deref (cell_ptr s) :: 'a word))
                 (filter (\<lambda>s. \<not> is_null s) srcs))
            \<and> sum_list (map (\<lambda>s. sint (deref (cell_ptr s) :: 'a word))
                 (filter (\<lambda>s. \<not> is_null s) srcs)) < 2 ^ (LENGTH('a) - 1) \<longrightarrow>
            sint (deref (cell_ptr (finalize_cell BaseAggregateFuncs_finalize arena
                    (aggregate (SUM_update TYPE('a)) arena dst srcs))) :: 'a word) =
            sum_list (map (\<lambda>s. sint (deref (cell_ptr s) :: 'a word))
                 (filter (\<lambda>s. \<not> is_null s) srcs)))
       \<and> finalize_cell BaseAggregateFuncs_finalize arena
           (aggregate (SUM_update TYPE('a)) arena dst srcs')
         = finalize_cell BaseAggregateFuncs_finalize arena
           (aggregate (SUM_update TYPE('a)) arena dst srcs)
       \<and> SUM_update TYPE('a) (aggregate (SUM_update TYPE('a)) arena dst xs)
            (aggregate (SUM_update TYPE('a)) arena dst' ys) arena
         = aggregate (SUM_update TYPE('a)) arena dst (xs @ ys)"
proof -
  note agg = aggregate_SUM [OF assms(1)]
  let ?f = "\<lambda>s. (deref (cell_ptr s) :: 'a word)"
  let ?P = "\<lambda>s. \<not> is_null s"
  have A: "finalize_cell BaseAggregateFuncs_finalize arena
           (aggregate (SUM_update TYPE('a)) arena dst srcs) =
         (if \<forall>s\<in>set srcs. is_null s then dst\<lparr>is_null := True\<rparr>
          else \<lparr>is_null = False, cell_ptr = assign (cell_ptr dst) (sum_list
            (map ?f (filter ?P srcs)))\<rparr>)"
    by (simp add: agg)
  let ?S = "sum_list (map (\<lambda>s. sint (?f s)) (filter ?P srcs))"
  have B: "(\<exists>s\<in>set srcs. \<not> is_null s) \<longrightarrow>
            sint (deref (cell_ptr (finalize_cell BaseAggregateFuncs_finalize arena
                    (aggregate (SUM_update TYPE('a)) arena dst srcs))) :: 'a word) =
            signed_take_bit (LENGTH('a) - 1) ?S"
  proof
    assume "\<exists>s\<in>set srcs. \<not> is_null s"
    then have "(deref (cell_ptr (aggregate (SUM_update TYPE('a)) arena dst srcs)) :: 'a word)
               = sum_list (map ?f (filter ?P srcs))"
      using assms(1) by (auto simp: agg deref_assign)
    then show "sint (deref (cell_ptr (finalize_cell BaseAggregateFuncs_finalize arena
                    (aggregate (SUM_update TYPE('a)) arena dst srcs))) :: 'a word) =
            signed_take_bit (LENGTH('a) - 1) ?S"
      by (simp add: sint_sum_list comp_def)
  qed
  have B2: "(\<exists>s\<in>set srcs. \<not> is_null s)
            \<and> - (2 ^ (LENGTH('a) - 1)) \<le> ?S \<and> ?S < 2 ^ (LENGTH('a) - 1) \<longrightarrow>
            sint (deref (cell_ptr (finalize_cell BaseAggregateFuncs_finalize arena
                    (aggregate (SUM_update TYPE('a)) arena dst srcs))) :: 'a word) = ?S"
    using B by (simp add: signed_take_bit_int_eq_self)
  have "set srcs' = set srcs" using assms(2) by (rule mset_eq_setD)
  moreover have "sum_list (map ?f (filter ?P srcs')) = sum_list (map ?f (filter ?P srcs))"
    using assms(2) by (rule sum_list_vals_mset)
  ultimately have C: "finalize_cell BaseAggregateFuncs_finalize arena
           (aggregate (SUM_update TYPE('a)) arena dst srcs')
         = finalize_cell BaseAggregateFuncs_finalize arena
           (aggregate (SUM_update TYPE('a)) arena dst srcs)"
    by (simp add: agg)
  have D: "SUM_update TYPE('a) (aggregate (SUM_update TYPE('a)) arena dst xs)
            (aggregate (SUM_update TYPE('a)) arena dst' ys) arena
         = aggregate (SUM_update TYPE('a)) arena dst (xs @ ys)"
  proof (cases "\<forall>s\<in>set ys. is_null s")
    case True
    then have "filter ?P ys = []" by (simp add: filter_empty_conv)
    with True show ?thesis
      by (simp add: agg SUM_update_null_src ball_Un)
  next
    case False
    then show ?thesis
      using assms(1)
      by (auto simp: agg SUM_update_nonnull_src deref_assign assign_assign ball_Un filter_empty_conv)
  qed
  from A B B2 C D show ?thesis by blast
qed

theorem sum_fold_witness:
  "8 dvd LENGTH(8)
   \<and> mset [value_cell (2 :: 8 word), value_cell (1 :: 8 word), null_cell TYPE(8)]
       = mset [value_cell (1 :: 8 word), null_cell TYPE(8), value_cell (2 :: 8 word)]
   \<and> finalize_cell BaseAggregateFuncs_finalize None
        (aggregate (SUM_update TYPE(8)) None (null_cell TYPE(8))
           [value_cell (1 :: 8 word), null_cell TYPE(8), value_cell (2 :: 8 word)])
       = value_cell (3 :: 8 word)
   \<and> finalize_cell BaseAggregateFuncs_finalize None
        (aggregate (SUM_update TYPE(8)) None (null_cell TYPE(8))
           [value_cell (2 :: 8 word), value_cell (1 :: 8 word), null_cell TYPE(8)])
       = value_cell (3 :: 8 word)"
proof -
  have d: "8 dvd LENGTH(8)" by simp
  have m: "mset [value_cell (2 :: 8 word), value_cell (1 :: 8 word), null_cell TYPE(8)]
       = mset [value_cell (1 :: 8 word), null_cell TYPE(8), value_cell (2 :: 8 word)]"
    by simp
  have z: "size_of TYPE(8) = 1" by (simp add: size_of_def)
  show ?thesis
    using sum_fold [OF d m, of None "null_cell TYPE(8)"] m
    by (simp add: deref_value_cell) (simp add: value_cell_def assign_def null_cell_def z)
qed

subsection \<open>REPLACE\<close>

lemma REPLACE_update_eq:
  "REPLACE_update T dst src arena =
     (if is_null src then dst\<lparr>is_null := True\<rparr>
      else \<lparr>is_null = False, cell_ptr = memcpy (cell_ptr dst) (cell_ptr src) (size_of T)\<rparr>)"
  by (simp add: REPLACE_update_def Let_def set_is_null_def)

lemma REPLACE_update_wf:
  assumes "length (cell_ptr dst) = size_of T" and "length (cell_ptr src) = size_of T"
  shows "REPLACE_update T dst src arena = (if is_null src then dst\<lparr>is_null := True\<rparr> else src)"
  using assms by (simp add: REPLACE_update_eq memcpy_whole)

lemma foldl_REPLACE:
  assumes "length (cell_ptr d) = size_of T" and "\<forall>s\<in>set srcs. length (cell_ptr s) = size_of T"
  shows "length (cell_ptr (foldl (\<lambda>d s. REPLACE_update T d s arena) d srcs)) = size_of T
       \<and> (srcs \<noteq> [] \<longrightarrow>
            is_null (foldl (\<lambda>d s. REPLACE_update T d s arena) d srcs) = is_null (last srcs))
       \<and> cell_ptr (foldl (\<lambda>d s. REPLACE_update T d s arena) d srcs) =
           (if \<forall>s\<in>set srcs. is_null s then cell_ptr d
            else cell_ptr (last (filter (\<lambda>s. \<not> is_null s) srcs)))"
  using assms(2)
proof (induction srcs rule: rev_induct)
  case Nil
  show ?case using assms(1) by simp
next
  case (snoc x xs)
  let ?p = "foldl (\<lambda>d s. REPLACE_update T d s arena) d xs"
  have "\<forall>s\<in>set xs. length (cell_ptr s) = size_of T" using snoc.prems by simp
  note ih = snoc.IH [OF this]
  note IH = ih [THEN conjunct1] ih [THEN conjunct2, THEN conjunct2]
  have x: "length (cell_ptr x) = size_of T" using snoc.prems by simp
  have step: "REPLACE_update T ?p x arena = (if is_null x then ?p\<lparr>is_null := True\<rparr> else x)"
    using IH(1) x by (rule REPLACE_update_wf)
  show ?case
  proof (cases "is_null x")
    case True
    then show ?thesis using step IH by simp
  next
    case False
    then show ?thesis using step x by auto
  qed
qed

text \<open>
  Claim C8.  After folding a non-empty sequence of sources by REPLACE update, the
  destination's null flag is the last source's null flag and its value bytes are those
  of the last non-null source (the initial bytes when there is none); when the last
  source is non-null the destination equals it, whatever the earlier sources were.
\<close>

theorem replace_last_write_wins:
  assumes "length (cell_ptr dst) = size_of T"
    and "\<forall>s\<in>set srcs. length (cell_ptr s) = size_of T"
    and "srcs \<noteq> []"
  shows "is_null (aggregate (REPLACE_update T) arena dst srcs) = is_null (last srcs)
       \<and> cell_ptr (aggregate (REPLACE_update T) arena dst srcs) =
           (if \<forall>s\<in>set srcs. is_null s then cell_ptr dst
            else cell_ptr (last (filter (\<lambda>s. \<not> is_null s) srcs)))
       \<and> (\<not> is_null (last srcs) \<longrightarrow> aggregate (REPLACE_update T) arena dst srcs = last srcs)"
proof -
  let ?d = "BaseAggregateFuncs_init dst arena"
  have d: "length (cell_ptr ?d) = size_of T" "cell_ptr ?d = cell_ptr dst"
    using assms(1) by (simp_all add: BaseAggregateFuncs_init_def)
  note f = foldl_REPLACE [OF d(1) assms(2), of arena, folded aggregate_def]
  have 1: "is_null (aggregate (REPLACE_update T) arena dst srcs) = is_null (last srcs)"
    using f assms(3) by simp
  have 2: "cell_ptr (aggregate (REPLACE_update T) arena dst srcs) =
           (if \<forall>s\<in>set srcs. is_null s then cell_ptr dst
            else cell_ptr (last (filter (\<lambda>s. \<not> is_null s) srcs)))"
    using f d(2) by simp
  have 3: "aggregate (REPLACE_update T) arena dst srcs = last srcs" if "\<not> is_null (last srcs)"
  proof -
    obtain xs x where sx: "srcs = xs @ [x]" using assms(3) by (cases srcs rule: rev_cases) auto
    with that have "\<not> is_null x" by simp
    then have "cell_ptr (aggregate (REPLACE_update T) arena dst srcs) = cell_ptr x"
      using 2 sx by auto
    moreover have "is_null (aggregate (REPLACE_update T) arena dst srcs) = is_null x"
      using 1 sx by simp
    ultimately show ?thesis using sx by simp
  qed
  from 1 2 3 show ?thesis by blast
qed

theorem replace_last_write_wins_witness:
  "length (cell_ptr (null_cell TYPE(8))) = size_of TYPE(8)
   \<and> length (cell_ptr (value_cell (1 :: 8 word))) = size_of TYPE(8)
   \<and> length (cell_ptr (value_cell (3 :: 8 word))) = size_of TYPE(8)
   \<and> [value_cell (1 :: 8 word), null_cell TYPE(8), value_cell (3 :: 8 word)] \<noteq> []
   \<and> aggregate (REPLACE_update TYPE(8)) None (null_cell TYPE(8))
        [value_cell (1 :: 8 word), null_cell TYPE(8), value_cell (3 :: 8 word)]
       = value_cell (3 :: 8 word)"
proof -
  have a: "length (cell_ptr (null_cell TYPE(8))) = size_of TYPE(8)" by (rule length_null_cell)
  have b: "\<forall>s\<in>set [value_cell (1 :: 8 word), null_cell TYPE(8), value_cell (3 :: 8 word)].
         length (cell_ptr s) = size_of TYPE(8)"
    by (simp add: length_null_cell length_value_cell)
  have c: "[value_cell (1 :: 8 word), null_cell TYPE(8), value_cell (3 :: 8 word)] \<noteq> []" by simp
  show ?thesis
    using replace_last_write_wins [OF a b c, of None] a
    by (simp add: length_value_cell)
qed

subsection \<open>Null sources\<close>

lemma REPLACE_CHAR_update_null_src:
  "is_null src \<Longrightarrow> REPLACE_CHAR_update dst src arena h = (dst\<lparr>is_null := True\<rparr>, arena, h)"
  by (simp add: REPLACE_CHAR_update_def Let_def set_is_null_def)

text \<open>
  Claim C2 as stated fails for REPLACE: a null source turns a non-null destination
  null.
\<close>

theorem null_source_counterexample:
  "is_null (null_cell TYPE(32))
   \<and> REPLACE_update TYPE(32) (value_cell (1 :: 32 word)) (null_cell TYPE(32)) None
       \<noteq> value_cell (1 :: 32 word)"
  by (simp add: REPLACE_update_eq value_cell_def)

text \<open>
  Claim C2, amended.  For MIN, MAX and SUM, generic and LARGEINT, and for the default
  update, a null source leaves the destination cell unchanged.  For REPLACE, also on CHAR
  and VARCHAR, a null source sets the destination's null flag and leaves its value bytes,
  the arena and the memory unchanged.
\<close>

theorem null_source_ignored:
  assumes "is_null src" and "is_null src'"
  shows "MIN_update lt T dst src arena = dst
       \<and> MIN_LARGEINT_update dst src arena = dst
       \<and> MAX_update gt T dst src arena = dst
       \<and> MAX_LARGEINT_update dst src arena = dst
       \<and> SUM_update T dst src arena = dst
       \<and> SUM_LARGEINT_update dst src arena = dst
       \<and> BaseAggregateFuncs_update dst src arena = dst
       \<and> REPLACE_update T dst src arena = dst\<lparr>is_null := True\<rparr>
       \<and> REPLACE_CHAR_update dst' src' arena h = (dst'\<lparr>is_null := True\<rparr>, arena, h)
       \<and> REPLACE_VARCHAR_update dst' src' arena h = (dst'\<lparr>is_null := True\<rparr>, arena, h)"
  using assms
  by (simp add: MIN_update_null_src MAX_update_null_src SUM_update_null_src
      MIN_LARGEINT_update_def MAX_LARGEINT_update_def SUM_LARGEINT_update_def
      BaseAggregateFuncs_update_def REPLACE_update_eq REPLACE_CHAR_update_null_src
      REPLACE_VARCHAR_update_def)

theorem null_source_ignored_witness:
  "is_null (null_cell TYPE(32))
   \<and> is_null \<lparr>is_null = True, cell_ptr = \<lparr>data = 0, size_s = 0\<rparr>\<rparr>
   \<and> MIN_update signed_lt TYPE(32) (value_cell (1 :: 32 word)) (null_cell TYPE(32)) None = value_cell (1 :: 32 word)
   \<and> SUM_update TYPE(32) (value_cell (1 :: 32 word)) (null_cell TYPE(32)) None = value_cell (1 :: 32 word)
   \<and> is_null (REPLACE_update TYPE(32) (value_cell (1 :: 32 word)) (null_cell TYPE(32)) None)
   \<and> cell_ptr (REPLACE_update TYPE(32) (value_cell (1 :: 32 word)) (null_cell TYPE(32)) None)
       = cell_ptr (value_cell (1 :: 32 word))"
proof -
  have a: "is_null (null_cell TYPE(32))" by simp
  have b: "is_null \<lparr>is_null = True, cell_ptr = \<lparr>data = 0, size_s = 0\<rparr>\<rparr>" by simp
  show ?thesis
    using null_source_ignored [OF a b, where T = "TYPE(32)" and dst = "value_cell (1 :: 32 word)"
        and arena = None and lt = signed_lt and gt = signed_gt]
    by simp
qed

subsection \<open>REPLACE on CHAR and VARCHAR without an arena\<close>

lemma read_bytes_memory_copy:
  "read_bytes (memory_copy h d s n) d n = read_bytes h s n"
  by (simp add: read_bytes_def memory_copy_def)

lemma memory_copy_outside:
  "\<not> (d \<le> a \<and> a < d + n) \<Longrightarrow> memory_copy h d s n a = h a"
  by (auto simp: memory_copy_def)

text \<open>
  Claim C1 as stated fails: with a null arena, a destination slice of 2 bytes and a
  source of 5 bytes, the destination's recorded size becomes 5 and the byte at offset 4
  of the destination buffer is overwritten.
\<close>

theorem replace_char_null_arena_counterexample:
  "\<not> is_null example_src
   \<and> size_s (cell_ptr example_dst) < size_s (cell_ptr example_src)
   \<and> size_s (cell_ptr example_dst) <
       size_s (cell_ptr (fst (REPLACE_CHAR_update example_dst example_src None example_heap)))
   \<and> snd (snd (REPLACE_CHAR_update example_dst example_src None example_heap))
         (data (cell_ptr example_dst) + 4) \<noteq> example_heap (data (cell_ptr example_dst) + 4)"
  by (simp add: REPLACE_CHAR_update_def example_dst_def example_src_def example_heap_def
      Let_def set_is_null_def memory_copy_def)

text \<open>
  Claim C1, amended.  With a null arena and a non-null source, REPLACE update on CHAR and
  VARCHAR allocates nothing and truncates nothing: it keeps the destination's data
  pointer, copies all bytes of the source slice there, sets the destination's size to
  the source's size and clears the null flag, whatever the destination's size and null
  flag were.  No byte outside that range of the source's length changes.
\<close>

theorem replace_char_null_arena:
  assumes "\<not> is_null src"
  shows "REPLACE_CHAR_update dst src None h =
           (\<lparr>is_null = False,
             cell_ptr = \<lparr>data = data (cell_ptr dst), size_s = size_s (cell_ptr src)\<rparr>\<rparr>,
            None,
            memory_copy h (data (cell_ptr dst)) (data (cell_ptr src)) (size_s (cell_ptr src)))
       \<and> read_bytes (snd (snd (REPLACE_CHAR_update dst src None h)))
            (data (cell_ptr dst)) (size_s (cell_ptr src))
          = read_bytes h (data (cell_ptr src)) (size_s (cell_ptr src))
       \<and> (\<forall>a. \<not> (data (cell_ptr dst) \<le> a \<and> a < data (cell_ptr dst) + size_s (cell_ptr src))
              \<longrightarrow> snd (snd (REPLACE_CHAR_update dst src None h)) a = h a)"
proof -
  have 1: "REPLACE_CHAR_update dst src None h =
           (\<lparr>is_null = False,
             cell_ptr = \<lparr>data = data (cell_ptr dst), size_s = size_s (cell_ptr src)\<rparr>\<rparr>,
            None,
            memory_copy h (data (cell_ptr dst)) (data (cell_ptr src)) (size_s (cell_ptr src)))"
    using assms by (simp add: REPLACE_CHAR_update_def Let_def set_is_null_def)
  show ?thesis
    unfolding 1 by (simp add: read_bytes_memory_copy memory_copy_outside)
qed

theorem replace_char_null_arena_witness:
  "\<not> is_null example_src
   \<and> fst (REPLACE_CHAR_update example_dst example_src None example_heap)
       = \<lparr>is_null = False, cell_ptr = \<lparr>data = 0, size_s = 5\<rparr>\<rparr>
   \<and> read_bytes (snd (snd (REPLACE_CHAR_update example_dst example_src None example_heap))) 0 5
       = [1, 2, 3, 4, 5]"
proof -
  have n: "\<not> is_null example_src" by (simp add: example_src_def)
  have u: "[0..<5] = [0, 1, 2, 3, 4]" by (simp add: upt_rec)
  note r = replace_char_null_arena [OF n, of example_dst example_heap]
  note eq = r [THEN conjunct1]
  show ?thesis
    unfolding eq
    by (simp add: example_src_def example_dst_def read_bytes_def example_heap_def u
        memory_copy_def)
qed

subsection \<open>AggregateInfo\<close>

text \<open>
  Claim C9.  When a traits class supplies no merge function, the merge function of its
  AggregateInfo is its update function.  No traits class of this header supplies one:
  for each of them merge and update of the AggregateInfo are the same function.
\<close>

theorem merge_defaults_to_update:
  "(merge traits = None \<longrightarrow>
      AggregateInfo_merge (AggregateInfo traits) = AggregateInfo_update (AggregateInfo traits))
   \<and> AggregateInfo_merge (AggregateInfo AggregateFuncTraits) = BaseAggregateFuncs_update
   \<and> AggregateInfo_update (AggregateInfo AggregateFuncTraits) = BaseAggregateFuncs_update
   \<and> AggregateInfo_merge (AggregateInfo (AggregateFuncTraits_MIN lt T1)) = MIN_update lt T1
   \<and> AggregateInfo_update (AggregateInfo (AggregateFuncTraits_MIN lt T1)) = MIN_update lt T1
   \<and> AggregateInfo_merge (AggregateInfo AggregateFuncTraits_MIN_LARGEINT) = MIN_LARGEINT_update
   \<and> AggregateInfo_update (AggregateInfo AggregateFuncTraits_MIN_LARGEINT) = MIN_LARGEINT_update
   \<and> AggregateInfo_merge (AggregateInfo (AggregateFuncTraits_MAX gt T2)) = MAX_update gt T2
   \<and> AggregateInfo_update (AggregateInfo (AggregateFuncTraits_MAX gt T2)) = MAX_update gt T2
   \<and> AggregateInfo_merge (AggregateInfo AggregateFuncTraits_MAX_LARGEINT) = MAX_LARGEINT_update
   \<and> AggregateInfo_update (AggregateInfo AggregateFuncTraits_MAX_LARGEINT) = MAX_LARGEINT_update
   \<and> AggregateInfo_merge (AggregateInfo (AggregateFuncTraits_SUM T3)) = SUM_update T3
   \<and> AggregateInfo_update (AggregateInfo (AggregateFuncTraits_SUM T3)) = SUM_update T3
   \<and> AggregateInfo_merge (AggregateInfo AggregateFuncTraits_SUM_LARGEINT) = SUM_LARGEINT_update
   \<and> AggregateInfo_update (AggregateInfo AggregateFuncTraits_SUM_LARGEINT) = SUM_LARGEINT_update
   \<and> AggregateInfo_merge (AggregateInfo (AggregateFuncTraits_REPLACE T4)) = REPLACE_update T4
   \<and> AggregateInfo_update (AggregateInfo (AggregateFuncTraits_REPLACE T4)) = REPLACE_update T4
   \<and> AggregateInfo_merge (AggregateInfo AggregateFuncTraits_REPLACE_CHAR) = REPLACE_CHAR_update
   \<and> AggregateInfo_update (AggregateInfo AggregateFuncTraits_REPLACE_CHAR) = REPLACE_CHAR_update
   \<and> AggregateInfo_merge (AggregateInfo AggregateFuncTraits_REPLACE_VARCHAR) = REPLACE_VARCHAR_update
   \<and> AggregateInfo_update (AggregateInfo AggregateFuncTraits_REPLACE_VARCHAR) = REPLACE_VARCHAR_update
   \<and> AggregateInfo_merge (AggregateInfo (AggregateFuncTraits_HLL_UNION H)) = HLL_UNION_update H
   \<and> AggregateInfo_update (AggregateInfo (AggregateFuncTraits_HLL_UNION H)) = HLL_UNION_update H"
  by (simp add: AggregateInfo_def AggregateInfo_merge_def AggregateInfo_update_def
      AggregateFuncTraits_def AggregateFuncTraits_MIN_def AggregateFuncTraits_MIN_LARGEINT_def
      AggregateFuncTraits_MAX_def AggregateFuncTraits_MAX_LARGEINT_def
      AggregateFuncTraits_SUM_def AggregateFuncTraits_SUM_LARGEINT_def
      AggregateFuncTraits_REPLACE_def AggregateFuncTraits_REPLACE_CHAR_def
      AggregateFuncTraits_REPLACE_VARCHAR_def AggregateFuncTraits_HLL_UNION_def
      BaseAggregateFuncs_merge_def REPLACE_VARCHAR_update_def)

theorem merge_defaults_to_update_witness:
  "merge (AggregateFuncTraits_SUM TYPE(32)) = None
   \<and> AggregateInfo_merge (AggregateInfo (AggregateFuncTraits_SUM TYPE(32)))
       = AggregateInfo_update (AggregateInfo (AggregateFuncTraits_SUM TYPE(32)))"
proof -
  have n: "merge (AggregateFuncTraits_SUM TYPE(32)) = None"
    by (simp add: AggregateFuncTraits_SUM_def AggregateFuncTraits_def BaseAggregateFuncs_merge_def)
  show ?thesis
    using merge_defaults_to_update [of "AggregateFuncTraits_SUM TYPE(32)"] n by blast
qed

subsection \<open>HLL_UNION finalize\<close>

lemma index_to_value_of_empty_iff:
  "index_to_value_of regs n = [] \<longleftrightarrow> (\<forall>v\<in>set (take n regs). v = 0)"
proof -
  have "map snd (zip [0..<n] regs) = take n regs"
    by (simp add: map_snd_zip_take min_def)
  then have "set (take n regs) = snd ` set (zip [0..<n] regs)"
    by (metis set_map)
  then show ?thesis
    by (auto simp: index_to_value_of_def filter_empty_conv)
qed

lemma index_to_value_of_zero:
  "\<forall>v\<in>set regs. v = 0 \<Longrightarrow> index_to_value_of regs n = []"
  unfolding index_to_value_of_empty_iff by (auto dest: in_set_takeD)

lemma finalize_calls:
  assumes "hash64_set (hll_context sl) = Some hs"
  shows "map_option fst (HLL_UNION_finalize H sl arena) =
     Some ((if has_sparse_or_full (hll_context sl) \<or> HLL_EXPLICLIT_INT64_NUM H < card hs
            then [call_set_max_register] else []) @
           (let index_to_value =
                  (if has_sparse_or_full (hll_context sl) \<or> HLL_EXPLICLIT_INT64_NUM H < card hs
                   then index_to_value_of
                          (set_max_register H (registers (hll_context sl)) (HLL_REGISTERS_COUNT H) hs)
                          (HLL_REGISTERS_COUNT H)
                   else [])
            in if HLL_COLUMN_DEFAULT_LEN H \<le> sparse_set_len H (length index_to_value)
               then [call_set_full]
               else if index_to_value \<noteq> [] then [call_set_sparse]
               else if hs \<noteq> {} then [call_set_explicit] else []))"
  using assms
  by (simp add: HLL_UNION_finalize_def Let_def card_gt_0_iff split: prod.splits)

lemma finalize_registers:
  assumes "hash64_set (hll_context sl) = Some hs"
  shows "map_option (\<lambda>r. registers (hll_context (snd r))) (HLL_UNION_finalize H sl arena) =
     Some (if has_sparse_or_full (hll_context sl) \<or> HLL_EXPLICLIT_INT64_NUM H < card hs
           then set_max_register H (registers (hll_context sl)) (HLL_REGISTERS_COUNT H) hs
           else registers (hll_context sl))"
  using assms
  by (simp add: HLL_UNION_finalize_def Let_def split: prod.splits)

lemma length_index_to_value_of:
  "length (index_to_value_of regs n) = length (filter (\<lambda>v. v \<noteq> 0) (take n regs))"
proof -
  have "map snd (filter (\<lambda>(i, v). v \<noteq> 0) (zip [0..<n] regs))
        = filter (\<lambda>v. v \<noteq> 0) (map snd (zip [0..<n] regs))"
    by (simp add: filter_map comp_def case_prod_unfold)
  also have "map snd (zip [0..<n] regs) = take n regs"
    by (simp add: map_snd_zip_take min_def)
  finally have "length (map snd (filter (\<lambda>(i, v). v \<noteq> 0) (zip [0..<n] regs)))
        = length (filter (\<lambda>v. v \<noteq> 0) (take n regs))"
    by simp
  then show ?thesis by (simp add: index_to_value_of_def)
qed

lemma finalize_slice:
  assumes "hash64_set (hll_context sl) = Some hs"
  shows "map_option snd (HLL_UNION_finalize H sl arena) =
     Some (let conv = (has_sparse_or_full (hll_context sl) \<or> HLL_EXPLICLIT_INT64_NUM H < card hs);
               regs = (if conv
                       then set_max_register H (registers (hll_context sl)) (HLL_REGISTERS_COUNT H) hs
                       else registers (hll_context sl));
               index_to_value = (if conv then index_to_value_of regs (HLL_REGISTERS_COUNT H) else []);
               r = (if HLL_COLUMN_DEFAULT_LEN H \<le> sparse_set_len H (length index_to_value)
                    then set_full H regs (HLL_REGISTERS_COUNT H)
                    else if index_to_value \<noteq> [] then set_sparse H index_to_value
                    else if hs \<noteq> {} then set_explicit H hs else ([], 0))
           in sl\<lparr>hll_data := fst r @ drop (length (fst r)) (hll_data sl),
                 hll_size := nat (snd r AND 0xffff),
                 hll_context := (hll_context sl)\<lparr>registers := regs, hash64_set := None\<rparr>\<rparr>)"
  using assms
  by (simp add: HLL_UNION_finalize_def Let_def card_gt_0_iff split: prod.splits)

text \<open>
  Claim C3.  The context is one that \<^verbatim>\<open>init\<close> and \<^verbatim>\<open>update\<close> can have left: its
  hash set is live, and its register array is all zero unless the sparse or full
  representation is in use (\<^verbatim>\<open>finalize\<close> itself looks at the registers only after
  conversion).  On such a context finalize converts exactly when that representation was
  in use or the hash set has more than \<^verbatim>\<open>HLL_EXPLICLIT_INT64_NUM\<close> elements, and then
  the registers become what \<^verbatim>\<open>set_max_register\<close> makes of them and the hash set;
  otherwise they stay.  With \<open>m\<close> the number of non-zero registers, it selects the
  full encoding exactly when the sparse length, \<open>m\<close> index-value pairs and the length
  field narrowed to \<^verbatim>\<open>int\<close>, reaches \<^verbatim>\<open>HLL_COLUMN_DEFAULT_LEN\<close>; otherwise the
  sparse encoding exactly when a register is non-zero; otherwise the explicit encoding
  exactly when the hash set is non-empty.  It calls no other serialising function.  The
  bytes that the selected function writes, of the registers, of the non-zero registers
  with their indices, or of the hash set, are at the start of the destination slice, whose
  size is the low 16 bits of the length that function reports, and 0 when none is
  selected; the hash set is deleted.
\<close>

theorem hll_finalize_encoding:
  assumes "hash64_set (hll_context sl) = Some hs"
    and "has_sparse_or_full (hll_context sl) \<or> (\<forall>v\<in>set (registers (hll_context sl)). v = 0)"
  shows "\<exists>calls sl'. HLL_UNION_finalize H sl arena = Some (calls, sl')
     \<and> (call_set_max_register \<in> set calls \<longleftrightarrow>
          has_sparse_or_full (hll_context sl) \<or> HLL_EXPLICLIT_INT64_NUM H < card hs)
     \<and> hll_context sl' = (hll_context sl)
          \<lparr>registers :=
             (if has_sparse_or_full (hll_context sl) \<or> HLL_EXPLICLIT_INT64_NUM H < card hs
              then set_max_register H (registers (hll_context sl)) (HLL_REGISTERS_COUNT H) hs
              else registers (hll_context sl)),
           hash64_set := None\<rparr>
     \<and> (call_set_full \<in> set calls \<longleftrightarrow>
          HLL_COLUMN_DEFAULT_LEN H \<le> sint (word_of_nat
            (length (filter (\<lambda>v. v \<noteq> 0)
                       (take (HLL_REGISTERS_COUNT H) (registers (hll_context sl'))))
               * (sizeof_SparseIndexType H + sizeof_SparseValueType H)
             + sizeof_SparseLengthValueType H) :: 32 word))
     \<and> (call_set_sparse \<in> set calls \<longleftrightarrow>
          call_set_full \<notin> set calls
          \<and> (\<exists>v\<in>set (take (HLL_REGISTERS_COUNT H) (registers (hll_context sl'))). v \<noteq> 0))
     \<and> (call_set_explicit \<in> set calls \<longleftrightarrow>
          call_set_full \<notin> set calls \<and> call_set_sparse \<notin> set calls \<and> hs \<noteq> {})
     \<and> calls =
          (if call_set_max_register \<in> set calls then [call_set_max_register] else []) @
          (if call_set_full \<in> set calls then [call_set_full]
           else if call_set_sparse \<in> set calls then [call_set_sparse]
           else if call_set_explicit \<in> set calls then [call_set_explicit] else [])
     \<and> (hll_data sl', hll_size sl') =
          (let (out, result_len) =
             (if call_set_full \<in> set calls
              then set_full H (registers (hll_context sl')) (HLL_REGISTERS_COUNT H)
              else if call_set_sparse \<in> set calls
              then set_sparse H (filter (\<lambda>(i, v). v \<noteq> 0)
                     (zip [0..<HLL_REGISTERS_COUNT H] (registers (hll_context sl'))))
              else if call_set_explicit \<in> set calls then set_explicit H hs
              else ([], 0))
           in (out @ drop (length out) (hll_data sl), nat (result_len AND 0xffff)))"
proof -
  let ?conv = "has_sparse_or_full (hll_context sl) \<or> HLL_EXPLICLIT_INT64_NUM H < card hs"
  let ?N = "HLL_REGISTERS_COUNT H"
  define regs where "regs = (if ?conv then set_max_register H (registers (hll_context sl)) ?N hs
                      else registers (hll_context sl))"
  define full where "full \<longleftrightarrow> HLL_COLUMN_DEFAULT_LEN H \<le> sparse_set_len H (length (index_to_value_of regs ?N))"
  define nonzero where "nonzero \<longleftrightarrow> (\<exists>v\<in>set (take ?N regs). v \<noteq> 0)"
  note c = finalize_calls [OF assms(1), of H arena]
  note s = finalize_slice [OF assms(1), of H arena]
  from c obtain calls sl' where fin: "HLL_UNION_finalize H sl arena = Some (calls, sl')"
    by (cases "HLL_UNION_finalize H sl arena") auto
  have itv: "(if ?conv then index_to_value_of
                 (set_max_register H (registers (hll_context sl)) ?N hs) ?N else [])
             = index_to_value_of regs ?N"
  proof (cases ?conv)
    case True
    then show ?thesis by (simp add: regs_def)
  next
    case False
    then have "\<forall>v\<in>set (registers (hll_context sl)). v = 0" using assms(2) by blast
    then show ?thesis using False by (simp add: regs_def index_to_value_of_zero)
  qed
  have nz: "index_to_value_of regs ?N \<noteq> [] \<longleftrightarrow> nonzero"
    by (simp add: index_to_value_of_empty_iff nonzero_def)
  have calls: "calls = (if ?conv then [call_set_max_register] else []) @
           (if full then [call_set_full]
            else if nonzero then [call_set_sparse]
            else if hs \<noteq> {} then [call_set_explicit] else [])"
    using c fin unfolding itv Let_def nz full_def by simp
  have sl': "sl' = sl\<lparr>hll_data := fst (if full then set_full H regs ?N
                    else if nonzero then set_sparse H (index_to_value_of regs ?N)
                    else if hs \<noteq> {} then set_explicit H hs else ([], 0))
                  @ drop (length (fst (if full then set_full H regs ?N
                    else if nonzero then set_sparse H (index_to_value_of regs ?N)
                    else if hs \<noteq> {} then set_explicit H hs else ([], 0)))) (hll_data sl),
                 hll_size := nat (snd (if full then set_full H regs ?N
                    else if nonzero then set_sparse H (index_to_value_of regs ?N)
                    else if hs \<noteq> {} then set_explicit H hs else ([], 0)) AND 0xffff),
                 hll_context := (hll_context sl)\<lparr>registers := regs, hash64_set := None\<rparr>\<rparr>"
  proof (cases ?conv)
    case True
    then show ?thesis
      using s fin
      by (simp add: Let_def regs_def full_def nonzero_def index_to_value_of_empty_iff)
  next
    case False
    then have z: "\<forall>v\<in>set (registers (hll_context sl)). v = 0" using assms(2) by blast
    then have "\<forall>v\<in>set (take ?N (registers (hll_context sl))). v = 0"
      by (auto dest: in_set_takeD)
    then show ?thesis
      using s fin False z
      by (simp add: Let_def regs_def full_def nonzero_def index_to_value_of_zero)
  qed
  have regs': "registers (hll_context sl') = regs" by (simp add: sl')
  have m1: "call_set_max_register \<in> set calls \<longleftrightarrow> ?conv" by (simp add: calls)
  have m2: "call_set_full \<in> set calls \<longleftrightarrow> full" by (simp add: calls)
  have m3: "call_set_sparse \<in> set calls \<longleftrightarrow> \<not> full \<and> nonzero" by (simp add: calls)
  have m4: "call_set_explicit \<in> set calls \<longleftrightarrow> \<not> full \<and> \<not> nonzero \<and> hs \<noteq> {}"
    by (simp add: calls)
  have full: "full \<longleftrightarrow> HLL_COLUMN_DEFAULT_LEN H \<le> sint (word_of_nat
            (length (filter (\<lambda>v. v \<noteq> 0) (take ?N regs))
               * (sizeof_SparseIndexType H + sizeof_SparseValueType H)
             + sizeof_SparseLengthValueType H) :: 32 word)"
    by (simp add: full_def sparse_set_len_def length_index_to_value_of)
  have A: "hll_context sl' = (hll_context sl)\<lparr>registers := regs, hash64_set := None\<rparr>"
    by (simp add: sl')
  have B: "calls =
          (if call_set_max_register \<in> set calls then [call_set_max_register] else []) @
          (if call_set_full \<in> set calls then [call_set_full]
           else if call_set_sparse \<in> set calls then [call_set_sparse]
           else if call_set_explicit \<in> set calls then [call_set_explicit] else [])"
    unfolding m1 m2 m3 m4 by (subst calls) simp
  have C: "(hll_data sl', hll_size sl') =
          (let (out, result_len) =
             (if call_set_full \<in> set calls
              then set_full H regs ?N
              else if call_set_sparse \<in> set calls
              then set_sparse H (filter (\<lambda>(i, v). v \<noteq> 0) (zip [0..<?N] regs))
              else if call_set_explicit \<in> set calls then set_explicit H hs
              else ([], 0))
           in (out @ drop (length out) (hll_data sl), nat (result_len AND 0xffff)))"
    unfolding m2 m3 m4
    by (simp add: sl' index_to_value_of_def case_prod_unfold Let_def)
  have A': "hll_context sl' = (hll_context sl)
          \<lparr>registers :=
             (if ?conv then set_max_register H (registers (hll_context sl)) ?N hs
              else registers (hll_context sl)),
           hash64_set := None\<rparr>"
    using A by (simp add: regs_def)
  note F2 = m2 [unfolded full, folded regs']
  have F3: "call_set_sparse \<in> set calls \<longleftrightarrow>
          call_set_full \<notin> set calls
          \<and> (\<exists>v\<in>set (take ?N (registers (hll_context sl'))). v \<noteq> 0)"
    using m2 m3 by (simp add: nonzero_def regs')
  have F4: "call_set_explicit \<in> set calls \<longleftrightarrow>
          call_set_full \<notin> set calls \<and> call_set_sparse \<notin> set calls \<and> hs \<noteq> {}"
    using m2 m3 m4 by auto
  note C' = C [folded regs']
  from fin m1 A' F2 F3 F4 B C' show ?thesis by blast
qed

theorem hll_finalize_encoding_witness:
  "hash64_set (hll_context (example_context True [0, 3, 0, 0] {})) = Some {}
   \<and> has_sparse_or_full (hll_context (example_context True [0, 3, 0, 0] {}))
   \<and> HLL_UNION_finalize example_hll_h (example_context True [0, 3, 0, 0] {}) None
       = Some ([call_set_max_register, call_set_sparse],
               \<lparr>hll_data = [2, 9], hll_size = 8,
                hll_context = \<lparr>has_value = True, has_sparse_or_full = True,
                               registers = [0, 3, 0, 0], hash64_set = None\<rparr>\<rparr>)"
proof -
  have a: "hash64_set (hll_context (example_context True [0, 3, 0, 0] {})) = Some {}"
    by (simp add: example_context_def)
  have b: "has_sparse_or_full (hll_context (example_context True [0, 3, 0, 0] {}))
        \<or> (\<forall>v\<in>set (registers (hll_context (example_context True [0, 3, 0, 0] {}))). v = 0)"
    by (simp add: example_context_def)
  have u: "[0..<4] = [0, 1, 2, 3]" by (simp add: upt_rec)
  have i: "index_to_value_of [0, 3, 0, 0] 4 = [(1, 3)]"
    by (simp add: index_to_value_of_def u)
  have l: "sparse_set_len example_hll_h (Suc 0) = 7"
    by (simp add: sparse_set_len_def example_hll_h_def)
  have p: "HLL_REGISTERS_COUNT example_hll_h = 4" "HLL_COLUMN_DEFAULT_LEN example_hll_h = 12"
    "set_max_register example_hll_h regs 4 {} = regs"
    "set_sparse example_hll_h m = ([2], 1 + 4 + 3 * int (length m))" for regs m
    by (simp_all add: example_hll_h_def)
  have "HLL_UNION_finalize example_hll_h (example_context True [0, 3, 0, 0] {}) None
       = Some ([call_set_max_register, call_set_sparse],
               \<lparr>hll_data = [2, 9], hll_size = 8,
                hll_context = \<lparr>has_value = True, has_sparse_or_full = True,
                               registers = [0, 3, 0, 0], hash64_set = None\<rparr>\<rparr>)"
    by (simp add: HLL_UNION_finalize_def example_context_def Let_def p i l)
  then show ?thesis
    using hll_finalize_encoding [OF a b, of example_hll_h None] a b by simp
qed

text \<open>
  Claim C10.  On an empty accumulator (empty hash set, sparse or full representation
  not in use), with a column length above the length of an empty sparse encoding,
  finalize calls no serialising function, leaves the bytes of the destination slice as
  they were and sets its size to 0.
\<close>

theorem hll_finalize_empty:
  assumes "hash64_set (hll_context sl) = Some {}"
    and "\<not> has_sparse_or_full (hll_context sl)"
    and "sparse_set_len H 0 < HLL_COLUMN_DEFAULT_LEN H"
  shows "HLL_UNION_finalize H sl arena =
           Some ([], sl\<lparr>hll_size := 0, hll_context := (hll_context sl)\<lparr>hash64_set := None\<rparr>\<rparr>)
       \<and> map_option (\<lambda>r. hll_data (snd r)) (HLL_UNION_finalize H sl arena) = Some (hll_data sl)
       \<and> map_option (\<lambda>r. hll_size (snd r)) (HLL_UNION_finalize H sl arena) = Some 0"
  using assms by (simp add: HLL_UNION_finalize_def Let_def)

theorem hll_finalize_empty_witness:
  "hash64_set (hll_context (example_context False [0, 0, 0, 0] {})) = Some {}
   \<and> \<not> has_sparse_or_full (hll_context (example_context False [0, 0, 0, 0] {}))
   \<and> sparse_set_len example_hll_h 0 < HLL_COLUMN_DEFAULT_LEN example_hll_h
   \<and> HLL_UNION_finalize example_hll_h (example_context False [0, 0, 0, 0] {}) None
       = Some ([], \<lparr>hll_data = [9, 9], hll_size = 0,
                    hll_context = \<lparr>has_value = True, has_sparse_or_full = False,
                                   registers = [0, 0, 0, 0], hash64_set = None\<rparr>\<rparr>)"
proof -
  have a: "hash64_set (hll_context (example_context False [0, 0, 0, 0] {})) = Some {}"
    by (simp add: example_context_def)
  have b: "\<not> has_sparse_or_full (hll_context (example_context False [0, 0, 0, 0] {}))"
    by (simp add: example_context_def)
  have c: "sparse_set_len example_hll_h 0 < HLL_COLUMN_DEFAULT_LEN example_hll_h"
    by (simp add: sparse_set_len_def example_hll_h_def)
  show ?thesis
    using hll_finalize_empty [OF a b c, of None] a b c
    by (simp add: example_context_def)
qed

end
